theory Spec2Isabelle
  imports Main "HOL-Library.AList" "HOL-Library.Multiset"
begin

section \<open>Course categories: closure under the parent relation\<close>

text \<open>
  \<^verbatim>\<open>course_management/serializers.py\<close>, \<^verbatim>\<open>CourseSerializer.validate_categories\<close>.
  A \<^verbatim>\<open>Category\<close> row is identified by its primary key (Django compares and hashes model
  instances by primary key); \<^verbatim>\<open>category.parent\<close> reads the nullable self-referential
  foreign key, given here as the function \<open>parent\<close>. The Python \<^verbatim>\<open>set\<close> is a
  duplicate-free list: \<^verbatim>\<open>set(value)\<close> is \<open>remdups\<close>, \<^verbatim>\<open>add\<close> is \<open>List.insert\<close>.
  The \<^verbatim>\<open>while category.parent\<close> loop need not terminate when the parent links form a
  cycle, so it lives in the option monad: \<open>None\<close> is "never returns".
\<close>

type_synonym category = nat

partial_function (option) climb ::
  "(category \<Rightarrow> category option) \<Rightarrow> category \<Rightarrow> category list \<Rightarrow> category list option" where
  "climb parent category validated_categories =
     (case parent category of
        None \<Rightarrow> Some validated_categories
      | Some p \<Rightarrow> climb parent p (List.insert p validated_categories))"

fun for_each_category ::
  "(category \<Rightarrow> category option) \<Rightarrow> category list \<Rightarrow> category list \<Rightarrow> category list option" where
  "for_each_category parent [] validated_categories = Some validated_categories"
| "for_each_category parent (category # rest) validated_categories =
     (case climb parent category validated_categories of
        None \<Rightarrow> None
      | Some v \<Rightarrow> for_each_category parent rest v)"

definition validate_categories ::
  "(category \<Rightarrow> category option) \<Rightarrow> category list \<Rightarrow> category list option" where
  "validate_categories parent value = for_each_category parent value (remdups value)"

text \<open>The parent relation, and the chains that end at a null parent.\<close>

definition parent_rel :: "(category \<Rightarrow> category option) \<Rightarrow> (category \<times> category) set" where
  "parent_rel parent = {(c, p). parent c = Some p}"

inductive reaches_root :: "(category \<Rightarrow> category option) \<Rightarrow> category \<Rightarrow> bool"
  for parent :: "category \<Rightarrow> category option" where
  at_root: "parent c = None \<Longrightarrow> reaches_root parent c"
| via_parent: "parent c = Some p \<Longrightarrow> reaches_root parent p \<Longrightarrow> reaches_root parent c"

definition ancestors :: "(category \<Rightarrow> category option) \<Rightarrow> category \<Rightarrow> category set" where
  "ancestors parent c = {a. (c, a) \<in> (parent_rel parent)\<^sup>+}"

definition example_parent :: "category \<Rightarrow> category option" where
  "example_parent c = (if c = 3 then Some 2 else if c = 2 then Some 1 else None)"

section \<open>Errors\<close>

text \<open>
  Every exception the modelled code can raise is a value; a function that can raise
  returns \<open>error + 'a\<close> with \<open>Inl\<close> the exception. \<open>and_then\<close> sequences two steps
  and stops at the first exception.
\<close>

datatype error =
    ValidationError string
  | AuthenticationFailed
  | DoesNotExist
  | IntegrityError
  | StorageError string
  | AttributeError
  | TypeError
  | ValueError
  | KeyError

definition and_then :: "error + 'a \<Rightarrow> ('a \<Rightarrow> error + 'b) \<Rightarrow> error + 'b" where
  "and_then r f = (case r of Inl e \<Rightarrow> Inl e | Inr x \<Rightarrow> f x)"

section \<open>Strings\<close>

text \<open>
  Strings are strings of ASCII characters. \<^verbatim>\<open>str.strip\<close> removes the white space at both
  ends, \<^verbatim>\<open>str.lower\<close> maps the capital letters to the small ones.
\<close>

definition is_space :: "char \<Rightarrow> bool" where
  "is_space c =
     (c \<in> set [CHR '' '', CHR 0x09, CHR 0x0A, CHR 0x0B, CHR 0x0C, CHR 0x0D,
                CHR 0x1C, CHR 0x1D, CHR 0x1E, CHR 0x1F])"

definition strip :: "string \<Rightarrow> string" where
  "strip s = rev (dropWhile is_space (rev (dropWhile is_space s)))"

definition lower_char :: "char \<Rightarrow> char" where
  "lower_char c =
     (case map_of (zip ''ABCDEFGHIJKLMNOPQRSTUVWXYZ'' ''abcdefghijklmnopqrstuvwxyz'') c of
        Some l \<Rightarrow> l
      | None \<Rightarrow> c)"

definition lower :: "string \<Rightarrow> string" where
  "lower s = map lower_char s"

text \<open>
  A character field of the serializer framework on a string that was sent: the value is
  blank when it is empty, or when white space is trimmed and nothing else is in it; a
  blank value is refused, and the field gives the value, trimmed when trimming is set.
\<close>

definition blank :: "bool \<Rightarrow> string \<Rightarrow> bool" where
  "blank trim_whitespace data = (data = [] \<or> (trim_whitespace \<and> strip data = []))"

definition cleaned :: "bool \<Rightarrow> string \<Rightarrow> string" where
  "cleaned trim_whitespace data = (if trim_whitespace then strip data else data)"

definition char_field :: "bool \<Rightarrow> string \<Rightarrow> error + string" where
  "char_field trim_whitespace data =
     (if blank trim_whitespace data then Inl (ValidationError ''This field may not be blank.'')
      else Inr (cleaned trim_whitespace data))"

section \<open>File fields and the blob store\<close>

text \<open>
  A Django file field holds no file, the name of a blob already in the store, or an
  upload that the next \<^verbatim>\<open>super().save()\<close> will write. Its truth value is that of its
  name, and \<^verbatim>\<open>==\<close> on file fields compares names.
\<close>

datatype file_field = NoFile | Stored string | Upload string

fun file_name :: "file_field \<Rightarrow> string option" where
  "file_name NoFile = None"
| "file_name (Stored n) = Some n"
| "file_name (Upload n) = Some n"

definition truthy :: "file_field \<Rightarrow> bool" where
  "truthy f = (case file_name f of None \<Rightarrow> False | Some n \<Rightarrow> n \<noteq> [])"

definition name_str :: "file_field \<Rightarrow> string" where
  "name_str f = (case file_name f of None \<Rightarrow> [] | Some n \<Rightarrow> n)"

text \<open>\<^verbatim>\<open>name.split("/")[-1]\<close>: what follows the last slash.\<close>

definition last_segment :: "string \<Rightarrow> string" where
  "last_segment n = rev (takeWhile (\<lambda>c. c \<noteq> CHR ''/'') (rev n))"

text \<open>\<^verbatim>\<open>os.path.join(a, b)\<close> on POSIX paths.\<close>

definition os_path_join :: "string \<Rightarrow> string \<Rightarrow> string" where
  "os_path_join a b =
     (if b \<noteq> [] \<and> hd b = CHR ''/'' then b
      else if a = [] \<or> last a = CHR ''/'' then a @ b
      else a @ ''/'' @ b)"

text \<open>
  The blob store (\<^verbatim>\<open>default_storage\<close>): the names it holds, and for each name the
  exception message its \<^verbatim>\<open>delete\<close> raises, if it raises. Writing a blob keeps the name it
  is given and never fails.
\<close>

record storage =
  blobs :: "string set"
  delete_error :: "string \<Rightarrow> string option"

definition storage_delete :: "storage \<Rightarrow> string \<Rightarrow> error + storage" where
  "storage_delete st n =
     (case delete_error st n of
        Some msg \<Rightarrow> Inl (StorageError msg)
      | None \<Rightarrow> Inr (st\<lparr>blobs := blobs st - {n}\<rparr>))"

text \<open>
  \<^verbatim>\<open>FileField.pre_save\<close>, run by \<^verbatim>\<open>super().save()\<close>: an upload with a name is written
  under its upload directory and becomes a stored reference.
\<close>

definition pre_save :: "string \<Rightarrow> storage \<Rightarrow> file_field \<Rightarrow> file_field \<times> storage" where
  "pre_save dir st f =
     (case f of
        Upload n \<Rightarrow>
          (if n \<noteq> [] then (Stored (os_path_join dir n), st\<lparr>blobs := insert (os_path_join dir n) (blobs st)\<rparr>)
           else (f, st))
      | _ \<Rightarrow> (f, st))"

definition pending_upload :: "file_field \<Rightarrow> bool" where
  "pending_upload f = (case f of Upload n \<Rightarrow> n \<noteq> [] | _ \<Rightarrow> False)"

text \<open>A row of a table holds references to stored blobs, never an upload still to be written.\<close>

definition stored_ref :: "file_field \<Rightarrow> bool" where
  "stored_ref f = (case f of Upload n \<Rightarrow> False | _ \<Rightarrow> True)"

text \<open>A table: its rows by primary key, and the next key its sequence hands out.\<close>

record 'a table =
  rows :: "nat \<rightharpoonup> 'a"
  next_pk :: nat

section \<open>Lessons\<close>

text \<open>\<^verbatim>\<open>course_management/models.py\<close>, class \<^verbatim>\<open>Lesson\<close>.\<close>

record lesson =
  l_lesson_number :: nat
  l_name :: string
  l_presentation :: file_field
  l_presentationURL :: "string option"
  l_additional_file :: file_field
  l_description :: "string option"
  l_course :: nat

text \<open>
  An instance in memory is its primary key, \<open>None\<close> until it is first saved, and its
  columns. \<^verbatim>\<open>super().save()\<close> of a lesson: both file fields are pre-saved under
  \<^verbatim>\<open>presentation_upload_path\<close>, that is the name of the lesson's course, and the row is
  inserted under a fresh key or written over the old one. When the course does not exist,
  reading its name for an upload raises, and otherwise the foreign key refuses the row.
\<close>

definition lesson_super_save ::
  "(nat \<rightharpoonup> string) \<Rightarrow> lesson table \<Rightarrow> storage \<Rightarrow> nat option \<Rightarrow> lesson
     \<Rightarrow> error + (nat \<times> lesson table \<times> storage)" where
  "lesson_super_save course_name tbl st self_pk self =
     (case course_name (l_course self) of
        None \<Rightarrow>
          Inl (if pending_upload (l_presentation self) \<or> pending_upload (l_additional_file self)
               then DoesNotExist else IntegrityError)
      | Some dir \<Rightarrow>
          (let (p, st1) = pre_save dir st (l_presentation self);
               (a, st2) = pre_save dir st1 (l_additional_file self);
               pk = (case self_pk of None \<Rightarrow> next_pk tbl | Some k \<Rightarrow> k);
               saved = self\<lparr>l_presentation := p, l_additional_file := a\<rparr>
           in Inr (pk,
                   tbl\<lparr>rows := (rows tbl)(pk \<mapsto> saved),
                       next_pk := (if self_pk = None then Suc (next_pk tbl) else next_pk tbl)\<rparr>,
                   st2)))"

text \<open>\<^verbatim>\<open>Lesson.save\<close>.\<close>

definition lesson_save ::
  "(nat \<rightharpoonup> string) \<Rightarrow> lesson table \<Rightarrow> storage \<Rightarrow> nat option \<Rightarrow> lesson
     \<Rightarrow> error + (nat \<times> lesson table \<times> storage)" where
  "lesson_save course_name tbl st self_pk self =
     (case self_pk of
        None \<Rightarrow> lesson_super_save course_name tbl st None self
      | Some pk \<Rightarrow>
          (case rows tbl pk of
             None \<Rightarrow> Inl DoesNotExist
           | Some old_lesson \<Rightarrow>
               and_then
                 (if truthy (l_presentation old_lesson) \<and> truthy (l_presentation self)
                     \<and> file_name (l_presentation old_lesson) \<noteq> file_name (l_presentation self)
                  then storage_delete st (name_str (l_presentation old_lesson))
                  else Inr st)
                 (\<lambda>st1.
                    let self1 =
                      (if truthy (l_presentation old_lesson) \<and> \<not> truthy (l_presentation self)
                       then self\<lparr>l_presentation := Stored (last_segment (name_str (l_presentation old_lesson)))\<rparr>
                       else self)
                    in and_then
                         (if truthy (l_additional_file old_lesson) \<and> truthy (l_additional_file self1)
                             \<and> file_name (l_additional_file old_lesson) \<noteq> file_name (l_additional_file self1)
                          then storage_delete st1 (name_str (l_additional_file old_lesson))
                          else Inr st1)
                         (\<lambda>st2.
                            let self2 =
                              (if truthy (l_additional_file old_lesson) \<and> \<not> truthy (l_additional_file self1)
                               then self1\<lparr>l_additional_file := Stored (last_segment (name_str (l_additional_file old_lesson)))\<rparr>
                               else self1)
                            in lesson_super_save course_name tbl st2 (Some pk) self2))))"

text \<open>
  \<^verbatim>\<open>Lesson.delete\<close>. The third component collects what the method prints. Django refuses
  to delete an instance without a primary key.
\<close>

definition try_delete :: "string \<Rightarrow> storage \<Rightarrow> string list \<Rightarrow> string \<Rightarrow> storage \<times> string list" where
  "try_delete label st printed n =
     (case storage_delete st n of
        Inl e \<Rightarrow> (st, printed @ [label @ (case e of StorageError msg \<Rightarrow> msg | _ \<Rightarrow> [])])
      | Inr st' \<Rightarrow> (st', printed))"

definition lesson_delete ::
  "lesson table \<Rightarrow> storage \<Rightarrow> string list \<Rightarrow> nat option \<Rightarrow> lesson
     \<Rightarrow> error + (lesson table \<times> storage \<times> string list)" where
  "lesson_delete tbl st printed self_pk self =
     (let (st1, printed1) =
            (if truthy (l_presentation self)
             then try_delete ''Error deleting presentation from S3: '' st printed (name_str (l_presentation self))
             else (st, printed));
          (st2, printed2) =
            (if truthy (l_additional_file self)
             then try_delete ''Error deleting additional file from S3: '' st1 printed1 (name_str (l_additional_file self))
             else (st1, printed1))
      in case self_pk of
           None \<Rightarrow> Inl ValueError
         | Some pk \<Rightarrow> Inr (tbl\<lparr>rows := (rows tbl)(pk := None)\<rparr>, st2, printed2))"

section \<open>The lesson serializer\<close>

text \<open>
  \<^verbatim>\<open>course_management/serializers.py\<close>, \<^verbatim>\<open>LessonSerializer\<close>. In the payload a key that
  is not sent is \<open>None\<close>; a file key that is sent holds \<^verbatim>\<open>null\<close> or an uploaded file,
  given by its name.
\<close>

record lesson_payload =
  lp_lesson_number :: "nat option"
  lp_name :: "string option"
  lp_presentation :: "string option option"
  lp_presentationURL :: "string option option"
  lp_additional_file :: "string option option"
  lp_description :: "string option option"
  lp_course :: "nat option"

record lesson_data =
  ld_lesson_number :: "nat option"
  ld_name :: "string option"
  ld_presentation :: "file_field option"
  ld_presentationURL :: "string option option"
  ld_additional_file :: "file_field option"
  ld_description :: "string option option"
  ld_course :: "nat option"

definition endswith :: "string \<Rightarrow> string \<Rightarrow> bool" where
  "endswith s suffix = (length suffix \<le> length s \<and> drop (length s - length suffix) s = suffix)"

definition uploaded :: "string option \<Rightarrow> file_field" where
  "uploaded v = (case v of None \<Rightarrow> NoFile | Some n \<Rightarrow> Upload n)"

definition validate_presentation :: "file_field \<Rightarrow> error + file_field" where
  "validate_presentation value =
     (if truthy value \<and> \<not> (endswith (name_str value) ''.pptx'' \<or> endswith (name_str value) ''.pdf'')
      then Inl (ValidationError ''Only .pptx or .pdf files are allowed for presentations.'')
      else Inr value)"

definition validate_additional_file :: "file_field \<Rightarrow> error + file_field" where
  "validate_additional_file value =
     (if truthy value \<and> \<not> (endswith (name_str value) ''.pdf'' \<or> endswith (name_str value) ''.zip'')
      then Inl (ValidationError ''Only .pdf or .zip files are allowed as additional file.'')
      else Inr value)"

text \<open>
  Field validation: \<^verbatim>\<open>name\<close> and \<^verbatim>\<open>course\<close> are required unless the update is partial,
  the course must exist, and a file key that is sent goes through its \<^verbatim>\<open>validate_\<close>
  method. A key that is not sent is not in the validated data.
\<close>

definition lesson_run_validation ::
  "bool \<Rightarrow> (nat \<rightharpoonup> string) \<Rightarrow> lesson_payload \<Rightarrow> error + lesson_data" where
  "lesson_run_validation partial course_name payload =
     (if \<not> partial \<and> (lp_name payload = None \<or> lp_course payload = None)
      then Inl (ValidationError ''This field is required.'')
      else if (case lp_course payload of None \<Rightarrow> False | Some c \<Rightarrow> course_name c = None)
      then Inl (ValidationError ''Invalid pk - object does not exist.'')
      else
        and_then
          (case lp_presentation payload of
             None \<Rightarrow> Inr None
           | Some v \<Rightarrow> and_then (validate_presentation (uploaded v)) (\<lambda>f. Inr (Some f)))
          (\<lambda>p. and_then
                  (case lp_additional_file payload of
                     None \<Rightarrow> Inr None
                   | Some v \<Rightarrow> and_then (validate_additional_file (uploaded v)) (\<lambda>f. Inr (Some f)))
                  (\<lambda>a. Inr \<lparr>ld_lesson_number = lp_lesson_number payload,
                             ld_name = lp_name payload,
                             ld_presentation = p,
                             ld_presentationURL = lp_presentationURL payload,
                             ld_additional_file = a,
                             ld_description = lp_description payload,
                             ld_course = lp_course payload\<rparr>)))"

text \<open>
  \<^verbatim>\<open>ModelSerializer.update\<close> of the framework: every key of the validated data is
  assigned to the instance, the others keep the value the row had, and the instance is
  saved with \<^verbatim>\<open>Lesson.save\<close>.
\<close>

definition lesson_set_attrs :: "lesson \<Rightarrow> lesson_data \<Rightarrow> lesson" where
  "lesson_set_attrs instance validated_data =
     \<lparr>l_lesson_number = (case ld_lesson_number validated_data of None \<Rightarrow> l_lesson_number instance | Some v \<Rightarrow> v),
      l_name = (case ld_name validated_data of None \<Rightarrow> l_name instance | Some v \<Rightarrow> v),
      l_presentation = (case ld_presentation validated_data of None \<Rightarrow> l_presentation instance | Some v \<Rightarrow> v),
      l_presentationURL = (case ld_presentationURL validated_data of None \<Rightarrow> l_presentationURL instance | Some v \<Rightarrow> v),
      l_additional_file = (case ld_additional_file validated_data of None \<Rightarrow> l_additional_file instance | Some v \<Rightarrow> v),
      l_description = (case ld_description validated_data of None \<Rightarrow> l_description instance | Some v \<Rightarrow> v),
      l_course = (case ld_course validated_data of None \<Rightarrow> l_course instance | Some v \<Rightarrow> v)\<rparr>"

definition lesson_update_request ::
  "(nat \<rightharpoonup> string) \<Rightarrow> lesson table \<Rightarrow> storage \<Rightarrow> bool \<Rightarrow> nat \<Rightarrow> lesson_payload
     \<Rightarrow> error + (nat \<times> lesson table \<times> storage)" where
  "lesson_update_request course_name tbl st partial pk payload =
     (case rows tbl pk of
        None \<Rightarrow> Inl DoesNotExist
      | Some instance \<Rightarrow>
          and_then (lesson_run_validation partial course_name payload)
            (\<lambda>validated_data.
               lesson_save course_name tbl st (Some pk) (lesson_set_attrs instance validated_data)))"

section \<open>Courses\<close>

text \<open>
  \<^verbatim>\<open>course_management/models.py\<close>, class \<^verbatim>\<open>Course\<close>. The many-to-many and reverse
  relations of a course are kept with its row: its categories, the employees that teach
  it (\<^verbatim>\<open>teachers\<close>, by the employee's key) and its lessons.
\<close>

record course =
  c_name :: string
  c_min_age :: nat
  c_max_age :: nat
  c_image :: file_field
  c_link :: "string option"
  c_status :: string
  c_note :: "string option"
  c_categories :: "category list"
  c_teachers :: "nat list"
  c_lessons :: "nat list"

definition course_super_save ::
  "course table \<Rightarrow> storage \<Rightarrow> nat option \<Rightarrow> course \<Rightarrow> nat \<times> course table \<times> storage" where
  "course_super_save tbl st self_pk self =
     (let (i, st1) = pre_save ''course_images/'' st (c_image self);
          pk = (case self_pk of None \<Rightarrow> next_pk tbl | Some k \<Rightarrow> k)
      in (pk,
          tbl\<lparr>rows := (rows tbl)(pk \<mapsto> self\<lparr>c_image := i\<rparr>),
              next_pk := (if self_pk = None then Suc (next_pk tbl) else next_pk tbl)\<rparr>,
          st1))"

text \<open>\<^verbatim>\<open>Course.save\<close>.\<close>

definition course_save ::
  "course table \<Rightarrow> storage \<Rightarrow> nat option \<Rightarrow> course \<Rightarrow> error + (nat \<times> course table \<times> storage)" where
  "course_save tbl st self_pk self =
     (case self_pk of
        None \<Rightarrow> Inr (course_super_save tbl st None self)
      | Some pk \<Rightarrow>
          (case rows tbl pk of
             None \<Rightarrow> Inl DoesNotExist
           | Some old_course \<Rightarrow>
               and_then
                 (if truthy (c_image old_course) \<and> truthy (c_image self)
                     \<and> file_name (c_image old_course) \<noteq> file_name (c_image self)
                  then storage_delete st (name_str (c_image old_course))
                  else Inr st)
                 (\<lambda>st1.
                    let self1 =
                      (if truthy (c_image old_course) \<and> \<not> truthy (c_image self)
                       then self\<lparr>c_image := Stored (last_segment (name_str (c_image old_course)))\<rparr>
                       else self)
                    in Inr (course_super_save tbl st1 (Some pk) self1))))"

text \<open>\<^verbatim>\<open>Course.delete\<close>.\<close>

definition course_delete ::
  "course table \<Rightarrow> storage \<Rightarrow> string list \<Rightarrow> nat option \<Rightarrow> course
     \<Rightarrow> error + (course table \<times> storage \<times> string list)" where
  "course_delete tbl st printed self_pk self =
     (let (st1, printed1) =
            (if truthy (c_image self)
             then try_delete ''Error deleting image from S3: '' st printed (name_str (c_image self))
             else (st, printed))
      in case self_pk of
           None \<Rightarrow> Inl ValueError
         | Some pk \<Rightarrow> Inr (tbl\<lparr>rows := (rows tbl)(pk := None)\<rparr>, st1, printed1))"

section \<open>Users\<close>

text \<open>
  \<^verbatim>\<open>user_management/models.py\<close>, class \<^verbatim>\<open>User\<close>: the columns the modelled code reads or
  writes, and the names of the groups the user belongs to. A password is stored hashed
  or is unusable (\<^verbatim>\<open>set_password(None)\<close>).
\<close>

datatype password = Unusable | Hashed string

record user =
  u_email :: string
  u_password :: password
  u_is_staff :: bool
  u_is_superuser :: bool
  u_image :: file_field
  u_groups :: "string list"

text \<open>\<^verbatim>\<open>user.groups.filter(name=g).exists()\<close>; an anonymous caller has no groups.\<close>

definition in_group :: "user option \<Rightarrow> string \<Rightarrow> bool" where
  "in_group u g = (case u of None \<Rightarrow> False | Some usr \<Rightarrow> g \<in> set (u_groups usr))"

text \<open>
  The user table keeps its rows in a list, so that the unique index on \<^verbatim>\<open>email\<close> can be
  checked: writing a row whose email another row already has raises.
\<close>

record user_table =
  ut_rows :: "(nat \<times> user) list"
  ut_next_pk :: nat

definition user_super_save ::
  "user_table \<Rightarrow> storage \<Rightarrow> nat option \<Rightarrow> user \<Rightarrow> error + (nat \<times> user \<times> user_table \<times> storage)" where
  "user_super_save tbl st self_pk self =
     (if list_ex (\<lambda>(k, u). Some k \<noteq> self_pk \<and> u_email u = u_email self) (ut_rows tbl)
      then Inl IntegrityError
      else
        (let (i, st1) = pre_save ''user_images/'' st (u_image self);
             pk = (case self_pk of None \<Rightarrow> ut_next_pk tbl | Some k \<Rightarrow> k);
             saved = self\<lparr>u_image := i\<rparr>
         in Inr (pk, saved,
                 tbl\<lparr>ut_rows := AList.update pk saved (ut_rows tbl),
                     ut_next_pk := (if self_pk = None then Suc (ut_next_pk tbl) else ut_next_pk tbl)\<rparr>,
                 st1)))"

text \<open>\<^verbatim>\<open>User.save\<close>.\<close>

definition user_save ::
  "user_table \<Rightarrow> storage \<Rightarrow> nat option \<Rightarrow> user \<Rightarrow> error + (nat \<times> user \<times> user_table \<times> storage)" where
  "user_save tbl st self_pk self =
     (case self_pk of
        None \<Rightarrow> user_super_save tbl st None self
      | Some pk \<Rightarrow>
          (case map_of (ut_rows tbl) pk of
             None \<Rightarrow> Inl DoesNotExist
           | Some old_user \<Rightarrow>
               and_then
                 (if truthy (u_image old_user) \<and> truthy (u_image self)
                     \<and> file_name (u_image old_user) \<noteq> file_name (u_image self)
                  then storage_delete st (name_str (u_image old_user))
                  else Inr st)
                 (\<lambda>st1.
                    let self1 =
                      (if truthy (u_image old_user) \<and> \<not> truthy (u_image self)
                       then self\<lparr>u_image := Stored (last_segment (name_str (u_image old_user)))\<rparr>
                       else self)
                    in user_super_save tbl st1 (Some pk) self1)))"

text \<open>\<^verbatim>\<open>User.delete\<close>.\<close>

definition user_delete ::
  "user_table \<Rightarrow> storage \<Rightarrow> string list \<Rightarrow> nat option \<Rightarrow> user
     \<Rightarrow> error + (user_table \<times> storage \<times> string list)" where
  "user_delete tbl st printed self_pk self =
     (let (st1, printed1) =
            (if truthy (u_image self)
             then try_delete ''Error deleting image from S3: '' st printed (name_str (u_image self))
             else (st, printed))
      in case self_pk of
           None \<Rightarrow> Inl ValueError
         | Some pk \<Rightarrow> Inr (tbl\<lparr>ut_rows := AList.delete pk (ut_rows tbl)\<rparr>, st1, printed1))"

text \<open>
  \<^verbatim>\<open>CustomUserManager._create_user\<close> and \<^verbatim>\<open>create_user\<close>. The keyword arguments are the
  optional image and the two flags; an absent flag is \<open>None\<close>.
\<close>

definition create_user_inner ::
  "user_table \<Rightarrow> storage \<Rightarrow> string \<Rightarrow> string option \<Rightarrow> file_field \<Rightarrow> bool \<Rightarrow> bool
     \<Rightarrow> error + (nat \<times> user \<times> user_table \<times> storage)" where
  "create_user_inner tbl st email password img is_staff is_superuser =
     (if email = [] then Inl ValueError
      else user_save tbl st None
             \<lparr>u_email = lower email,
              u_password = (case password of None \<Rightarrow> Unusable | Some p \<Rightarrow> Hashed p),
              u_is_staff = is_staff,
              u_is_superuser = is_superuser,
              u_image = img,
              u_groups = []\<rparr>)"

definition create_user ::
  "user_table \<Rightarrow> storage \<Rightarrow> string \<Rightarrow> string option \<Rightarrow> file_field \<Rightarrow> bool option \<Rightarrow> bool option
     \<Rightarrow> error + (nat \<times> user \<times> user_table \<times> storage)" where
  "create_user tbl st email password img is_staff is_superuser =
     create_user_inner tbl st email password img
       (case is_staff of None \<Rightarrow> False | Some b \<Rightarrow> b)
       (case is_superuser of None \<Rightarrow> False | Some b \<Rightarrow> b)"

section \<open>The user serializer\<close>

text \<open>
  \<^verbatim>\<open>user_management/serializers.py\<close>, \<^verbatim>\<open>UserSerializer\<close>. The request payload is a
  dictionary; a key that is not sent is \<open>None\<close>, and a key that is sent holds a string, a
  list or a truth value as its field expects. The keys of the image and of the other
  optional profile columns are not sent.
\<close>

record user_payload =
  up_email :: "string option"
  up_password :: "string option"
  up_group :: "string option"
  up_groups :: "string list option"
  up_is_superuser :: "bool option"

text \<open>
  The validated data \<^verbatim>\<open>create\<close> receives. \<^verbatim>\<open>groups\<close> is the to-many relation the method
  pops into \<^verbatim>\<open>many_to_many\<close>.
\<close>

record user_data =
  ud_email :: "string option"
  ud_password :: "string option"
  ud_group :: "string option"
  ud_groups :: "string list option"
  ud_image :: "file_field option"
  ud_is_superuser :: "bool option"

definition GroupChoices :: "string list" where
  "GroupChoices = [''teacher'', ''owner'']"

text \<open>
  Field validation of a create request, as the declarations of the serializer and of the
  model fix it. \<^verbatim>\<open>email\<close> is required; it is an email field of at most 254 characters:
  trimmed, not blank, and accepted by the email validator of the framework, which is the
  parameter \<open>valid_email\<close>. \<^verbatim>\<open>password\<close> is optional; when sent it is a character field of
  at most 128 characters: trimmed and not blank. \<^verbatim>\<open>group\<close> is a required choice among
  \<open>GroupChoices\<close>. \<^verbatim>\<open>groups\<close> is excluded and \<^verbatim>\<open>is_superuser\<close> is read-only, so neither
  reaches the validated data. The mixin of the serializer takes the uniqueness check of
  the email away from the field, and \<^verbatim>\<open>create\<close> does not run it.
\<close>

definition max_length :: "nat \<Rightarrow> string \<Rightarrow> error + string" where
  "max_length n v =
     (if length v > n then Inl (ValidationError ''Ensure this field has no more characters.'')
      else Inr v)"

definition user_run_validation :: "(string \<Rightarrow> bool) \<Rightarrow> user_payload \<Rightarrow> error + user_data" where
  "user_run_validation valid_email payload =
     (case up_email payload of
        None \<Rightarrow> Inl (ValidationError ''This field is required.'')
      | Some e \<Rightarrow>
          and_then (char_field True e)
            (\<lambda>email.
               if \<not> valid_email email then Inl (ValidationError ''Enter a valid email address.'')
               else
                 and_then (max_length 254 email)
                   (\<lambda>email.
                      and_then
                        (case up_password payload of
                           None \<Rightarrow> Inr None
                         | Some p \<Rightarrow>
                             and_then (char_field True p)
                               (\<lambda>pw. and_then (max_length 128 pw) (\<lambda>pw. Inr (Some pw))))
                        (\<lambda>password.
                           case up_group payload of
                             None \<Rightarrow> Inl (ValidationError ''This field is required.'')
                           | Some g \<Rightarrow>
                               if g \<in> set GroupChoices
                               then Inr \<lparr>ud_email = Some email, ud_password = password,
                                         ud_group = Some g, ud_groups = None,
                                         ud_image = None, ud_is_superuser = None\<rparr>
                               else Inl (ValidationError (''\"'' @ g @ ''\" is not a valid choice.''))))))"

text \<open>
  \<^verbatim>\<open>UserSerializer.create\<close>. \<open>group_table\<close> holds the names of the rows of the group
  table; \<^verbatim>\<open>Group.objects.get\<close> raises when no row has the name.
\<close>

definition set_user_groups :: "user_table \<Rightarrow> nat \<Rightarrow> user \<Rightarrow> string list \<Rightarrow> user \<times> user_table" where
  "set_user_groups tbl pk instance gs =
     (instance\<lparr>u_groups := gs\<rparr>,
      tbl\<lparr>ut_rows := AList.update pk (instance\<lparr>u_groups := gs\<rparr>) (ut_rows tbl)\<rparr>)"

definition user_serializer_create ::
  "string list \<Rightarrow> user_table \<Rightarrow> storage \<Rightarrow> user_data
     \<Rightarrow> error + (nat \<times> user \<times> user_table \<times> storage)" where
  "user_serializer_create group_table tbl st validated_data =
     (let many_to_many = ud_groups validated_data;
          group_name = ud_group validated_data;
          is_superuser =
            (case group_name of
               None \<Rightarrow> ud_is_superuser validated_data
             | Some g \<Rightarrow> if g \<noteq> [] \<and> g = ''superuser'' then Some True
                         else ud_is_superuser validated_data)
      in case ud_email validated_data of
           None \<Rightarrow> Inl TypeError
         | Some email \<Rightarrow>
             and_then
               (create_user tbl st email (ud_password validated_data)
                  (case ud_image validated_data of None \<Rightarrow> NoFile | Some f \<Rightarrow> f) None is_superuser)
               (\<lambda>(pk, instance, tbl1, st1).
                  and_then
                    (case group_name of
                       None \<Rightarrow> Inr (instance, tbl1)
                     | Some g \<Rightarrow>
                         if g \<noteq> []
                         then (if g \<in> set group_table
                               then Inr (set_user_groups tbl1 pk instance (List.insert g (u_groups instance)))
                               else Inl DoesNotExist)
                         else Inr (instance, tbl1))
                    (\<lambda>(instance2, tbl2).
                       case many_to_many of
                         None \<Rightarrow> Inr (pk, instance2, tbl2, st1)
                       | Some value \<Rightarrow>
                           (let (instance3, tbl3) = set_user_groups tbl2 pk instance2 (remdups value)
                            in Inr (pk, instance3, tbl3, st1)))))"

text \<open>A create request on \<^verbatim>\<open>/api/users/\<close>: field validation, then \<^verbatim>\<open>create\<close>.\<close>

definition user_create_request ::
  "(string \<Rightarrow> bool) \<Rightarrow> string list \<Rightarrow> user_table \<Rightarrow> storage \<Rightarrow> user_payload
     \<Rightarrow> error + (nat \<times> user \<times> user_table \<times> storage)" where
  "user_create_request valid_email group_table tbl st payload =
     and_then (user_run_validation valid_email payload) (user_serializer_create group_table tbl st)"

section \<open>The course viewset\<close>

text \<open>
  \<^verbatim>\<open>course_management/views.py\<close>, \<^verbatim>\<open>CourseViewSet\<close>. A request carries the caller
  (\<open>None\<close> when anonymous) with the caller's primary key, and the query parameters; the
  action of the viewset is its name, as in the framework.
\<close>

datatype course_serializer_class = CourseSerializer | CourseSerializerUpdateTeachers

record request =
  r_user :: "(nat \<times> user) option"
  q_teacher :: "string option"
  q_search :: "string option"
  q_status :: "string option"
  q_category :: "string option"
  q_age :: "string option"

definition get_serializer_class :: "request \<Rightarrow> string \<Rightarrow> course_serializer_class" where
  "get_serializer_class req act =
     (if in_group (map_option snd (r_user req)) ''owner'' \<and> act \<in> set [''update'', ''partial_update'']
      then CourseSerializerUpdateTeachers
      else CourseSerializer)"

text \<open>
  Python's \<^verbatim>\<open>int(s)\<close> on a string of ASCII characters, which the ORM applies to the value
  of a lookup on an integer column: surrounding white space (that of \<open>strip\<close>), an optional
  sign, decimal digits, single underscores between digits.
\<close>

definition digit_value :: "char \<Rightarrow> nat option" where
  "digit_value c = map_of (zip ''0123456789'' [0, 1, 2, 3, 4, 5, 6, 7, 8, 9]) c"

fun digits :: "nat \<Rightarrow> string \<Rightarrow> nat option" where
  "digits acc [] = Some acc"
| "digits acc (c # cs) =
     (if c = CHR ''_''
      then (case cs of
              [] \<Rightarrow> None
            | d # ds \<Rightarrow> if digit_value d = None then None else digits acc cs)
      else (case digit_value c of
              None \<Rightarrow> None
            | Some v \<Rightarrow> digits (10 * acc + v) cs))"

definition py_int :: "string \<Rightarrow> int option" where
  "py_int s =
     (let t = strip s;
          neg = (t \<noteq> [] \<and> hd t = CHR ''-'');
          body = (if t \<noteq> [] \<and> (hd t = CHR ''-'' \<or> hd t = CHR ''+'') then tl t else t)
      in case body of
           [] \<Rightarrow> None
         | d # ds \<Rightarrow>
             if digit_value d = None then None
             else map_option (\<lambda>n. if neg then - int n else int n) (digits 0 body))"

text \<open>\<^verbatim>\<open>icontains\<close>: the needle occurs in the text, letter case aside (ASCII letters).\<close>

fun occurs_in :: "string \<Rightarrow> string \<Rightarrow> bool" where
  "occurs_in needle [] = (needle = [])"
| "occurs_in needle (h # hs) = (take (length needle) (h # hs) = needle \<or> occurs_in needle hs)"

definition icontains :: "string \<Rightarrow> string \<Rightarrow> bool" where
  "icontains text needle = occurs_in (lower needle) (lower text)"

text \<open>
  A filter through a to-many relation joins the table with the related rows: a row
  comes back once for every related row that matches.
\<close>

definition filter_related :: "('a \<Rightarrow> 'b list) \<Rightarrow> ('b \<Rightarrow> bool) \<Rightarrow> 'a list \<Rightarrow> 'a list" where
  "filter_related rel p queryset = concat (map (\<lambda>r. map (\<lambda>_. r) (filter p (rel r))) queryset)"

text \<open>
  \<^verbatim>\<open>CourseViewSet.get_queryset\<close>. \<open>all_courses\<close> is \<^verbatim>\<open>Course.objects.all()\<close>, each row with
  its primary key; \<open>category_name\<close> reads the name of a category. A query parameter
  counts when it is sent and not empty.
\<close>

definition get_queryset ::
  "(category \<Rightarrow> string) \<Rightarrow> (nat \<times> course) list \<Rightarrow> request \<Rightarrow> error + (nat \<times> course) list" where
  "get_queryset category_name all_courses req =
     (let queryset = sort_key fst all_courses;
          queryset1 =
            (if in_group (map_option snd (r_user req)) ''teacher''
             then filter_related (\<lambda>row. c_teachers (snd row)) (\<lambda>t. Some t = map_option fst (r_user req)) queryset
             else queryset)
      in and_then
           (case q_teacher req of
              None \<Rightarrow> Inr queryset1
            | Some teacher \<Rightarrow>
                if teacher = [] then Inr queryset1
                else (case py_int teacher of
                        None \<Rightarrow> Inl ValueError
                      | Some t \<Rightarrow> Inr (filter_related (\<lambda>row. c_teachers (snd row)) (\<lambda>e. int e = t) queryset1)))
           (\<lambda>queryset2.
              let queryset3 =
                    (case q_search req of
                       None \<Rightarrow> queryset2
                     | Some search \<Rightarrow>
                         if search = [] then queryset2
                         else filter (\<lambda>(k, c). icontains (c_name c) search) queryset2);
                  queryset4 =
                    (case q_status req of
                       None \<Rightarrow> queryset3
                     | Some status \<Rightarrow>
                         if status = [] then queryset3
                         else filter (\<lambda>(k, c). c_status c = status) queryset3);
                  queryset5 =
                    (case q_category req of
                       None \<Rightarrow> queryset4
                     | Some cat \<Rightarrow>
                         if cat = [] then queryset4
                         else filter_related (\<lambda>row. c_categories (snd row))
                                (\<lambda>g. icontains (category_name g) cat) queryset4)
              in case q_age req of
                   None \<Rightarrow> Inr queryset5
                 | Some age \<Rightarrow>
                     if age = [] then Inr queryset5
                     else (case py_int age of
                             None \<Rightarrow> Inl ValueError
                           | Some a \<Rightarrow>
                               Inr (filter (\<lambda>(k, c). int (c_min_age c) \<le> a \<and> int (c_max_age c) \<ge> a)
                                      queryset5))))"

text \<open>
  An update through \<^verbatim>\<open>CourseSerializerUpdateTeachers\<close>. The serializer declares the one
  field \<^verbatim>\<open>teachers\<close>: optional, nullable, a list of keys of employees whose user is in
  the teacher group (\<open>teacher_pks\<close>). Every other key of the payload is not a field of the
  serializer and is not read.
\<close>

record course_payload =
  cp_name :: "string option"
  cp_min_age :: "nat option"
  cp_max_age :: "nat option"
  cp_image :: "file_field option"
  cp_link :: "string option option"
  cp_status :: "string option"
  cp_note :: "string option option"
  cp_categories :: "category list option"
  cp_teachers :: "nat list option option"
  cp_lessons :: "nat list option option"

definition update_teachers_run_validation ::
  "nat list \<Rightarrow> course_payload \<Rightarrow> error + nat list option option" where
  "update_teachers_run_validation teacher_pks payload =
     (case cp_teachers payload of
        None \<Rightarrow> Inr None
      | Some None \<Rightarrow> Inr (Some None)
      | Some (Some pks) \<Rightarrow>
          if list_all (\<lambda>pk. pk \<in> set teacher_pks) pks then Inr (Some (Some pks))
          else Inl (ValidationError ''Invalid pk - object does not exist.''))"

text \<open>
  \<^verbatim>\<open>ModelSerializer.update\<close> of the framework on these validated data: no column is
  assigned, the instance is saved with \<^verbatim>\<open>Course.save\<close>, then the to-many relation is set.
\<close>

definition update_teachers_update ::
  "course table \<Rightarrow> storage \<Rightarrow> nat \<Rightarrow> course \<Rightarrow> nat list option option
     \<Rightarrow> error + (course table \<times> storage)" where
  "update_teachers_update tbl st pk instance validated_data =
     and_then (course_save tbl st (Some pk) instance)
       (\<lambda>(k, tbl1, st1).
          case validated_data of
            None \<Rightarrow> Inr (tbl1, st1)
          | Some None \<Rightarrow> Inl TypeError
          | Some (Some pks) \<Rightarrow>
              (case rows tbl1 pk of
                 None \<Rightarrow> Inl DoesNotExist
               | Some saved \<Rightarrow>
                   Inr (tbl1\<lparr>rows := (rows tbl1)(pk \<mapsto> saved\<lparr>c_teachers := remdups pks\<rparr>)\<rparr>, st1)))"

text \<open>
  An update or partial update of course \<open>pk\<close> by a caller for whom \<open>get_serializer_class\<close>
  chose \<^verbatim>\<open>CourseSerializerUpdateTeachers\<close>: the row is fetched, the payload validated, the
  instance updated.
\<close>

definition owner_course_update ::
  "nat list \<Rightarrow> course table \<Rightarrow> storage \<Rightarrow> nat \<Rightarrow> course_payload \<Rightarrow> error + (course table \<times> storage)" where
  "owner_course_update teacher_pks tbl st pk payload =
     (case rows tbl pk of
        None \<Rightarrow> Inl DoesNotExist
      | Some instance \<Rightarrow>
          and_then (update_teachers_run_validation teacher_pks payload)
            (update_teachers_update tbl st pk instance))"

section \<open>The partner serializer\<close>

text \<open>
  \<^verbatim>\<open>partner_management/serializers.py\<close>, \<^verbatim>\<open>PartnerSerializer.validate\<close>. In the data, a
  key that was not sent is \<open>None\<close>; the owner column is nullable, so a sent owner is a
  user or \<^verbatim>\<open>None\<close>.
\<close>

record partner_data =
  pd_name :: "string option"
  pd_legal_entity :: "string option"
  pd_status :: "string option"
  pd_owner :: "(nat \<times> user) option option"

definition partner_validate :: "partner_data \<Rightarrow> error + partner_data" where
  "partner_validate data =
     (case pd_owner data of
        None \<Rightarrow> Inr data
      | Some None \<Rightarrow> Inl AttributeError
      | Some (Some owner) \<Rightarrow>
          if \<not> in_group (Some (snd owner)) ''owner''
          then Inl (ValidationError ''Owner must be in an owner group.'')
          else Inr data)"

section \<open>The branch serializers\<close>

text \<open>
  \<^verbatim>\<open>partner_management/models.py\<close>: an employee belongs to one partner; a branch belongs
  to one partner and has the employees assigned to it, kept with its row by their keys.
\<close>

record employee =
  e_partner :: nat
  e_status :: string

record branch =
  b_name :: string
  b_partner :: nat
  b_status :: string
  b_employees :: "nat list"

datatype branch_serializer_class = BranchSerializer | BranchSerializerForOwner

definition branch_get_serializer_class :: "request \<Rightarrow> branch_serializer_class" where
  "branch_get_serializer_class req =
     (if in_group (map_option snd (r_user req)) ''owner'' then BranchSerializerForOwner
      else BranchSerializer)"

record branch_payload =
  bp_name :: "string option"
  bp_partner :: "nat option"
  bp_status :: "string option"
  bp_employees :: "nat list option option"

record branch_data =
  bd_name :: "string option"
  bd_partner :: "nat option"
  bd_status :: "string option"
  bd_employees :: "(nat \<times> employee) list option option"

text \<open>
  Field validation, as the declarations fix it. \<^verbatim>\<open>name\<close> and \<^verbatim>\<open>partner\<close> are required
  unless the update is partial; \<^verbatim>\<open>partner\<close> must be the key of a partner, and is read-only
  in \<^verbatim>\<open>BranchSerializerForOwner\<close>, where it never reaches the data; \<^verbatim>\<open>employees\<close> is
  optional and nullable, and each key must be the key of an employee, which replaces it.
  The other scalar columns of a branch behave as \<^verbatim>\<open>name\<close> does and are left out.
\<close>

definition resolve_employees ::
  "(nat \<times> employee) list \<Rightarrow> nat list \<Rightarrow> error + (nat \<times> employee) list" where
  "resolve_employees all_employees pks =
     (if list_all (\<lambda>pk. map_of all_employees pk \<noteq> None) pks
      then Inr (map (\<lambda>pk. (pk, the (map_of all_employees pk))) pks)
      else Inl (ValidationError ''Invalid pk - object does not exist.''))"

definition branch_to_internal_value ::
  "branch_serializer_class \<Rightarrow> bool \<Rightarrow> nat list \<Rightarrow> (nat \<times> employee) list \<Rightarrow> branch_payload
     \<Rightarrow> error + branch_data" where
  "branch_to_internal_value cls partial partner_pks all_employees payload =
     (if \<not> partial \<and> bp_name payload = None then Inl (ValidationError ''This field is required.'')
      else if cls = BranchSerializer \<and> \<not> partial \<and> bp_partner payload = None
      then Inl (ValidationError ''This field is required.'')
      else if cls = BranchSerializer \<and> (case bp_partner payload of None \<Rightarrow> False | Some p \<Rightarrow> p \<notin> set partner_pks)
      then Inl (ValidationError ''Invalid pk - object does not exist.'')
      else
        and_then
          (case bp_employees payload of
             None \<Rightarrow> Inr None
           | Some None \<Rightarrow> Inr (Some None)
           | Some (Some pks) \<Rightarrow>
               and_then (resolve_employees all_employees pks) (\<lambda>es. Inr (Some (Some es))))
          (\<lambda>es. Inr \<lparr>bd_name = bp_name payload,
                      bd_partner = (if cls = BranchSerializerForOwner then None else bp_partner payload),
                      bd_status = bp_status payload,
                      bd_employees = es\<rparr>))"

text \<open>
  \<^verbatim>\<open>BranchSerializer.validate\<close>. \<open>instance\<close> is \<^verbatim>\<open>self.instance\<close>: the branch under
  update, \<open>None\<close> on a create. Iterating over a null \<^verbatim>\<open>employees\<close> raises.
\<close>

definition branch_validate :: "branch option \<Rightarrow> branch_data \<Rightarrow> error + branch_data" where
  "branch_validate instance data =
     (let partner =
            (case bd_partner data of
               Some p \<Rightarrow> Some p
             | None \<Rightarrow> (case instance of Some i \<Rightarrow> Some (b_partner i) | None \<Rightarrow> None))
      in case bd_employees data of
           None \<Rightarrow> Inr data
         | Some None \<Rightarrow> Inl TypeError
         | Some (Some employees_data) \<Rightarrow>
             (let valid_employees =
                    filter (\<lambda>employee. Some (e_partner (snd employee)) = partner) employees_data
              in Inr (data\<lparr>bd_employees := Some (Some valid_employees)\<rparr>)))"

text \<open>
  \<^verbatim>\<open>ModelSerializer.create\<close> and \<^verbatim>\<open>update\<close> of the framework on a branch: the scalar
  columns are written, then the to-many relation is set when it is in the data. A row
  cannot be inserted without a partner.
\<close>

definition branch_model_create :: "branch table \<Rightarrow> branch_data \<Rightarrow> error + (nat \<times> branch table)" where
  "branch_model_create tbl validated_data =
     (case bd_partner validated_data of
        None \<Rightarrow> Inl IntegrityError
      | Some p \<Rightarrow>
          (case bd_employees validated_data of
             Some None \<Rightarrow> Inl TypeError
           | es \<Rightarrow>
              Inr (next_pk tbl,
                   tbl\<lparr>rows := (rows tbl)(next_pk tbl \<mapsto>
                          \<lparr>b_name = (case bd_name validated_data of None \<Rightarrow> [] | Some n \<Rightarrow> n),
                           b_partner = p,
                           b_status = (case bd_status validated_data of None \<Rightarrow> ''active'' | Some x \<Rightarrow> x),
                           b_employees = (case es of Some (Some l) \<Rightarrow> remdups (map fst l) | _ \<Rightarrow> [])\<rparr>),
                       next_pk := Suc (next_pk tbl)\<rparr>)))"

definition branch_model_update ::
  "branch table \<Rightarrow> nat \<Rightarrow> branch \<Rightarrow> branch_data \<Rightarrow> error + branch table" where
  "branch_model_update tbl pk instance validated_data =
     (case bd_employees validated_data of
        Some None \<Rightarrow> Inl TypeError
      | es \<Rightarrow>
          Inr (tbl\<lparr>rows := (rows tbl)(pk \<mapsto>
                 \<lparr>b_name = (case bd_name validated_data of None \<Rightarrow> b_name instance | Some n \<Rightarrow> n),
                  b_partner = (case bd_partner validated_data of None \<Rightarrow> b_partner instance | Some p \<Rightarrow> p),
                  b_status = (case bd_status validated_data of None \<Rightarrow> b_status instance | Some x \<Rightarrow> x),
                  b_employees = (case es of Some (Some l) \<Rightarrow> remdups (map fst l)
                                 | _ \<Rightarrow> b_employees instance)\<rparr>)\<rparr>))"

text \<open>
  \<^verbatim>\<open>BranchSerializerForOwner.create\<close>: the partner is the one the caller owns
  (\<open>owned_partner\<close>, \<open>None\<close> when the caller owns none, which raises).
\<close>

definition branch_create_for_owner ::
  "nat option \<Rightarrow> branch table \<Rightarrow> branch_data \<Rightarrow> error + (nat \<times> branch table)" where
  "branch_create_for_owner owned_partner tbl validated_data =
     (case owned_partner of
        None \<Rightarrow> Inl DoesNotExist
      | Some p \<Rightarrow> branch_model_create tbl (validated_data\<lparr>bd_partner := Some p\<rparr>))"

text \<open>A create request and an update request on \<^verbatim>\<open>/api/branches/\<close>.\<close>

definition branch_create_request ::
  "branch_serializer_class \<Rightarrow> nat option \<Rightarrow> nat list \<Rightarrow> (nat \<times> employee) list \<Rightarrow> branch table
     \<Rightarrow> branch_payload \<Rightarrow> error + (nat \<times> branch table)" where
  "branch_create_request cls owned_partner partner_pks all_employees tbl payload =
     and_then (branch_to_internal_value cls False partner_pks all_employees payload)
       (\<lambda>data. and_then (branch_validate None data)
          (\<lambda>validated_data.
             case cls of
               BranchSerializerForOwner \<Rightarrow> branch_create_for_owner owned_partner tbl validated_data
             | BranchSerializer \<Rightarrow> branch_model_create tbl validated_data))"

definition branch_update_request ::
  "branch_serializer_class \<Rightarrow> bool \<Rightarrow> nat list \<Rightarrow> (nat \<times> employee) list \<Rightarrow> branch table \<Rightarrow> nat
     \<Rightarrow> branch_payload \<Rightarrow> error + branch table" where
  "branch_update_request cls partial partner_pks all_employees tbl pk payload =
     (case rows tbl pk of
        None \<Rightarrow> Inl DoesNotExist
      | Some instance \<Rightarrow>
          and_then (branch_to_internal_value cls partial partner_pks all_employees payload)
            (\<lambda>data. and_then (branch_validate (Some instance) data)
               (branch_model_update tbl pk instance)))"

section \<open>Token cookies\<close>

text \<open>
  \<^verbatim>\<open>user_management/views.py\<close>, \<^verbatim>\<open>CustomTokenObtainPairView.post\<close>. The parent view of
  the JWT library first validates the two fields of its serializer: both are required
  character fields, the email trimmed, the password trimmed or not as the library has it
  (\<open>trim_password\<close>). The credentials check of the library is the parameter \<open>issue\<close>:
  from an email and a password it gives the refresh and access tokens of the account, or
  nothing when no active account has these credentials. The parent answers 200 with both
  tokens in the body, or raises.
\<close>

record cookie =
  ck_key :: string
  ck_value :: string
  ck_httponly :: bool
  ck_secure :: bool
  ck_samesite :: string
  ck_expires :: int
  ck_path :: string

record response =
  status_code :: nat
  body :: "(string \<times> string) list"
  cookies :: "cookie list"









section \<open>Example data\<close>

definition example_teacher :: user where
  "example_teacher =
     \<lparr>u_email = ''teacher11@gmail.com'', u_password = Hashed ''teacher11'', u_is_staff = False,
      u_is_superuser = False, u_image = NoFile, u_groups = [''teacher'']\<rparr>"

definition example_owner :: user where
  "example_owner =
     \<lparr>u_email = ''owner1@gmail.com'', u_password = Hashed ''owner1'', u_is_staff = False,
      u_is_superuser = False, u_image = NoFile, u_groups = [''owner'']\<rparr>"

definition example_partner_data :: "(nat \<times> user) option option \<Rightarrow> partner_data" where
  "example_partner_data ow =
     \<lparr>pd_name = Some ''Partner 1'', pd_legal_entity = None, pd_status = None, pd_owner = ow\<rparr>"



definition example_course :: "string \<Rightarrow> nat \<Rightarrow> nat \<Rightarrow> nat list \<Rightarrow> course" where
  "example_course n lo hi ts =
     \<lparr>c_name = n, c_min_age = lo, c_max_age = hi, c_image = NoFile, c_link = None,
      c_status = ''active'', c_note = None, c_categories = [], c_teachers = ts, c_lessons = []\<rparr>"

definition example_courses :: "(nat \<times> course) list" where
  "example_courses =
     [(4, example_course ''Pencil Code'' 10 14 [11]),
      (2, example_course ''Python'' 12 17 [11]),
      (1, example_course ''Roblox'' 7 12 [11, 12]),
      (3, example_course ''JavaScript'' 9 10 [12])]"

definition example_request :: request where
  "example_request =
     \<lparr>r_user = Some (11, example_teacher), q_teacher = None, q_search = None, q_status = None,
      q_category = None, q_age = Some ''10''\<rparr>"

definition example_storage :: storage where
  "example_storage = \<lparr>blobs = {''Roblox/roblox_lesson_1.pptx'', ''course_images/roblox_logo.png''},
                       delete_error = (\<lambda>n. None)\<rparr>"

definition example_groups :: "string list" where
  "example_groups = [''superuser'', ''owner'', ''teacher'']"

definition example_users :: user_table where
  "example_users = \<lparr>ut_rows = [(2, example_owner), (11, example_teacher)], ut_next_pk = 12\<rparr>"

definition example_user_payload :: "string \<Rightarrow> user_payload" where
  "example_user_payload g =
     \<lparr>up_email = Some ''Owner2@gmail.com'', up_password = Some ''owner2'', up_group = Some g,
      up_groups = None, up_is_superuser = None\<rparr>"

text \<open>A stand-in for the email validator on the examples: one at sign, between two non-empty parts.\<close>

definition example_valid_email :: "string \<Rightarrow> bool" where
  "example_valid_email e =
     (length (filter (\<lambda>c. c = CHR ''@'') e) = 1 \<and> hd e \<noteq> CHR ''@'' \<and> last e \<noteq> CHR ''@'')"

definition example_shared_table :: "lesson table" where
  "example_shared_table =
     \<lparr>rows = [1 \<mapsto> \<lparr>l_lesson_number = 1, l_name = ''Lesson 1'',
                      l_presentation = Stored ''Roblox/handout.pdf'', l_presentationURL = None,
                      l_additional_file = Stored ''Roblox/handout.pdf'', l_description = None,
                      l_course = 1\<rparr>],
      next_pk = 2\<rparr>"

definition example_shared_storage :: storage where
  "example_shared_storage = \<lparr>blobs = {''Roblox/handout.pdf''}, delete_error = (\<lambda>n. None)\<rparr>"

definition example_shared_payload :: lesson_payload where
  "example_shared_payload =
     \<lparr>lp_lesson_number = None, lp_name = None, lp_presentation = None, lp_presentationURL = None,
      lp_additional_file = Some (Some ''exercises.zip''), lp_description = None, lp_course = None\<rparr>"


definition example_course_table :: "course table" where
  "example_course_table =
     \<lparr>rows = [1 \<mapsto> (example_course ''Roblox'' 7 12 [11])\<lparr>c_image := Stored ''course_images/roblox_logo.png''\<rparr>],
      next_pk = 2\<rparr>"

definition example_course_payload :: course_payload where
  "example_course_payload =
     \<lparr>cp_name = Some ''Renamed'', cp_min_age = Some 3, cp_max_age = None, cp_image = None,
      cp_link = None, cp_status = Some ''archived'', cp_note = None, cp_categories = None,
      cp_teachers = Some (Some [12]), cp_lessons = None\<rparr>"

definition example_employees :: "(nat \<times> employee) list" where
  "example_employees =
     [(11, \<lparr>e_partner = 1, e_status = ''active''\<rparr>),
      (12, \<lparr>e_partner = 1, e_status = ''active''\<rparr>),
      (21, \<lparr>e_partner = 2, e_status = ''active''\<rparr>)]"

definition example_branch_table :: "branch table" where
  "example_branch_table =
     \<lparr>rows = [1 \<mapsto> \<lparr>b_name = ''Branch 1'', b_partner = 1, b_status = ''active'', b_employees = [11, 12]\<rparr>],
      next_pk = 2\<rparr>"

definition example_branch_payload :: "nat option \<Rightarrow> nat list option option \<Rightarrow> branch_payload" where
  "example_branch_payload p es =
     \<lparr>bp_name = Some ''Branch 2'', bp_partner = p, bp_status = None, bp_employees = es\<rparr>"

definition example_course_names :: "nat \<rightharpoonup> string" where
  "example_course_names = [1 \<mapsto> ''Roblox'']"

definition example_lesson :: "file_field \<Rightarrow> file_field \<Rightarrow> lesson" where
  "example_lesson p a =
     \<lparr>l_lesson_number = 1, l_name = ''Lesson 1'', l_presentation = p, l_presentationURL = None,
      l_additional_file = a, l_description = None, l_course = 1\<rparr>"

definition example_lesson_table :: "lesson table" where
  "example_lesson_table =
     \<lparr>rows = [1 \<mapsto> example_lesson (Stored ''Roblox/roblox_lesson_1.pptx'')
                                   (Stored ''Roblox/additional_files_lesson_1.zip''),
              2 \<mapsto> example_lesson (Stored ''intro.pptx'') NoFile],
      next_pk = 3\<rparr>"

definition example_lesson_storage :: "(string \<Rightarrow> string option) \<Rightarrow> storage" where
  "example_lesson_storage err =
     \<lparr>blobs = {''Roblox/roblox_lesson_1.pptx'', ''Roblox/additional_files_lesson_1.zip'', ''intro.pptx''},
      delete_error = err\<rparr>"

definition example_lesson_payload :: "string option option \<Rightarrow> lesson_payload" where
  "example_lesson_payload p =
     \<lparr>lp_lesson_number = None, lp_name = Some ''Lesson one'', lp_presentation = p,
      lp_presentationURL = None, lp_additional_file = None, lp_description = None, lp_course = None\<rparr>"

section \<open>Proofs: categories\<close>

lemma ancestors_root: "parent c = None \<Longrightarrow> ancestors parent c = {}"
  by (auto simp: ancestors_def parent_rel_def dest: tranclD)

lemma ancestors_step:
  assumes "parent c = Some p"
  shows "ancestors parent c = insert p (ancestors parent p)"
proof (rule set_eqI)
  fix a
  have "(c, a) \<in> (parent_rel parent)\<^sup>+ \<longleftrightarrow> a = p \<or> (p, a) \<in> (parent_rel parent)\<^sup>+"
  proof
    assume "(c, a) \<in> (parent_rel parent)\<^sup>+"
    then obtain z where z: "(c, z) \<in> parent_rel parent" "(z, a) \<in> (parent_rel parent)\<^sup>*"
      by (auto dest: tranclD)
    have "parent c = Some z" using z(1) by (simp add: parent_rel_def)
    then have "z = p" using assms by (metis option.inject)
    with z(2) show "a = p \<or> (p, a) \<in> (parent_rel parent)\<^sup>+"
      by (auto simp: rtrancl_eq_or_trancl)
  next
    assume "a = p \<or> (p, a) \<in> (parent_rel parent)\<^sup>+"
    moreover have "(c, p) \<in> parent_rel parent" using assms by (simp add: parent_rel_def)
    ultimately show "(c, a) \<in> (parent_rel parent)\<^sup>+" by (auto intro: trancl_into_trancl2)
  qed
  then show "a \<in> ancestors parent c \<longleftrightarrow> a \<in> insert p (ancestors parent p)"
    by (simp add: ancestors_def)
qed

lemma climb_closure:
  assumes "reaches_root parent c"
  shows "\<exists>v'. climb parent c v = Some v' \<and> set v' = set v \<union> ancestors parent c
           \<and> (distinct v \<longrightarrow> distinct v')"
  using assms
proof (induction arbitrary: v rule: reaches_root.induct)
  case (at_root c)
  then show ?case by (subst climb.simps) (simp add: ancestors_root)
next
  case (via_parent c p)
  from via_parent.IH [of "List.insert p v"] obtain v' where
    v': "climb parent p (List.insert p v) = Some v'"
        "set v' = set (List.insert p v) \<union> ancestors parent p"
        "distinct (List.insert p v) \<longrightarrow> distinct v'"
    by blast
  have "climb parent c v = Some v'"
    using via_parent.hyps(1) v'(1) by (subst climb.simps) simp
  moreover have "set v' = set v \<union> ancestors parent c"
    using v'(2) ancestors_step [of parent c p] via_parent.hyps(1) by auto
  moreover have "distinct v \<longrightarrow> distinct v'"
    using v'(3) by simp
  ultimately show ?case by blast
qed

lemma for_each_category_closure:
  assumes "\<forall>c \<in> set cs. reaches_root parent c"
  shows "\<exists>v'. for_each_category parent cs v = Some v'
           \<and> set v' = set v \<union> (\<Union>c \<in> set cs. ancestors parent c)
           \<and> (distinct v \<longrightarrow> distinct v')"
  using assms
proof (induction cs arbitrary: v)
  case Nil
  then show ?case by simp
next
  case (Cons c cs)
  from Cons.prems have "reaches_root parent c" by simp
  from climb_closure [OF this, of v] obtain v1 where
    v1: "climb parent c v = Some v1" "set v1 = set v \<union> ancestors parent c"
        "distinct v \<longrightarrow> distinct v1"
    by blast
  from Cons.prems have "\<forall>c \<in> set cs. reaches_root parent c" by simp
  from Cons.IH [OF this, of v1] obtain v' where
    v': "for_each_category parent cs v1 = Some v'"
        "set v' = set v1 \<union> (\<Union>c \<in> set cs. ancestors parent c)"
        "distinct v1 \<longrightarrow> distinct v'"
    by blast
  have "for_each_category parent (c # cs) v = Some v'" using v1(1) v'(1) by simp
  moreover have "set v' = set v \<union> (\<Union>c \<in> set (c # cs). ancestors parent c)"
    using v1(2) v'(2) by auto
  moreover have "distinct v \<longrightarrow> distinct v'" using v1(3) v'(3) by simp
  ultimately show ?case by blast
qed

text \<open>
  C1. When every submitted category's parent chain reaches a null parent,
  \<open>validate_categories\<close> returns, and the list it returns has no duplicates and holds
  exactly the submitted categories and all their ancestors.
\<close>

theorem validate_categories_closure:
  assumes "\<forall>c \<in> set value. reaches_root parent c"
  shows "\<exists>stored. validate_categories parent value = Some stored
           \<and> distinct stored
           \<and> set stored = set value \<union> (\<Union>c \<in> set value. ancestors parent c)"
proof -
  from for_each_category_closure [OF assms, of "remdups value"] obtain v' where
    "for_each_category parent value (remdups value) = Some v'"
    "set v' = set (remdups value) \<union> (\<Union>c \<in> set value. ancestors parent c)"
    "distinct (remdups value) \<longrightarrow> distinct v'"
    by blast
  then show ?thesis by (simp add: validate_categories_def)
qed

theorem validate_categories_closure_witness:
  "reaches_root example_parent 3 \<and> reaches_root example_parent 2 \<and>
   (\<exists>stored. validate_categories example_parent [3, 2] = Some stored \<and> distinct stored
      \<and> set stored = set [3, 2] \<union> (\<Union>c \<in> set [3, 2]. ancestors example_parent c))"
proof -
  have r1: "reaches_root example_parent 1"
    by (rule at_root) (simp add: example_parent_def)
  have r2: "reaches_root example_parent 2"
    by (rule via_parent [OF _ r1]) (simp add: example_parent_def)
  have r3: "reaches_root example_parent 3"
    by (rule via_parent [OF _ r2]) (simp add: example_parent_def)
  have h: "\<forall>c \<in> set [3, 2 :: nat]. reaches_root example_parent c"
    using r2 r3 by simp
  from validate_categories_closure [OF h] r2 r3 show ?thesis by blast
qed

text \<open>On the example tree 3 \<rightarrow> 2 \<rightarrow> 1 the loop adds the root to the two submitted categories.\<close>

lemma validate_categories_example:
  "validate_categories example_parent [3, 2] = Some [1, 3, 2]"
  by (simp add: validate_categories_def climb.simps example_parent_def)

section \<open>Proofs: the partner serializer\<close>

text \<open>
  C6. When the data of a partner write hold an owner, \<open>partner_validate\<close> raises a
  validation error exactly when that user is not in the group named owner, and returns
  the data unchanged otherwise; when the data hold no owner key, it returns the data
  unchanged.
\<close>

theorem partner_validate_owner_group:
  "(pd_owner data = Some (Some owner) \<longrightarrow>
      ((\<exists>msg. partner_validate data = Inl (ValidationError msg))
         \<longleftrightarrow> ''owner'' \<notin> set (u_groups (snd owner)))
      \<and> (''owner'' \<in> set (u_groups (snd owner)) \<longrightarrow> partner_validate data = Inr data))
   \<and> (pd_owner data = None \<longrightarrow> partner_validate data = Inr data)"
  by (auto simp: partner_validate_def in_group_def)

theorem partner_validate_owner_group_witness:
  "pd_owner (example_partner_data (Some (Some (11, example_teacher)))) = Some (Some (11, example_teacher))
   \<and> ''owner'' \<notin> set (u_groups (snd (11 :: nat, example_teacher)))
   \<and> (\<exists>msg. partner_validate (example_partner_data (Some (Some (11, example_teacher))))
               = Inl (ValidationError msg))
   \<and> pd_owner (example_partner_data (Some (Some (2, example_owner)))) = Some (Some (2, example_owner))
   \<and> ''owner'' \<in> set (u_groups (snd (2 :: nat, example_owner)))
   \<and> partner_validate (example_partner_data (Some (Some (2, example_owner))))
       = Inr (example_partner_data (Some (Some (2, example_owner))))
   \<and> pd_owner (example_partner_data None) = None
   \<and> partner_validate (example_partner_data None) = Inr (example_partner_data None)"
  using partner_validate_owner_group
          [of "example_partner_data (Some (Some (11, example_teacher)))" "(11, example_teacher)"]
        partner_validate_owner_group
          [of "example_partner_data (Some (Some (2, example_owner)))" "(2, example_owner)"]
        partner_validate_owner_group [of "example_partner_data None"]
  by (simp add: example_partner_data_def example_teacher_def example_owner_def)

section \<open>Proofs: token cookies\<close>




section \<open>Proofs: the course listing\<close>

lemma filter_related_at_most_one:
  assumes "\<forall>r \<in> set qs. length (filter p (rel r)) \<le> 1"
  shows "filter_related rel p qs = filter (\<lambda>r. \<exists>x \<in> set (rel r). p x) qs"
  using assms
proof (induction qs)
  case Nil
  then show ?case by (simp add: filter_related_def)
next
  case (Cons r qs)
  then have IH: "filter_related rel p qs = filter (\<lambda>r. \<exists>x \<in> set (rel r). p x) qs"
    by simp
  have unfold: "filter_related rel p (r # qs) = map (\<lambda>_. r) (filter p (rel r)) @ filter_related rel p qs"
    by (simp add: filter_related_def)
  from Cons.prems have len: "length (filter p (rel r)) \<le> 1" by simp
  show ?case
  proof (cases "filter p (rel r)")
    case Nil
    then have "\<not> (\<exists>x \<in> set (rel r). p x)" by (simp add: filter_empty_conv)
    with Nil unfold IH show ?thesis by simp
  next
    case (Cons y ys)
    with len have ys: "ys = []" by simp
    have "y \<in> set (filter p (rel r))" using Cons by simp
    then have "\<exists>x \<in> set (rel r). p x" by auto
    with Cons ys unfold IH show ?thesis by simp
  qed
qed

lemma filter_eq_distinct_length: "distinct xs \<Longrightarrow> length (filter (\<lambda>t. t = a) xs) \<le> 1"
  by (induction xs) (auto simp: filter_empty_conv)

lemma py_int_10: "py_int ''10'' = Some 10"
  by (simp add: py_int_def strip_def is_space_def digit_value_def)

lemma py_int_examples:
  "py_int '' -1_0 '' = Some (- 10)" "py_int ''1__0'' = None" "py_int ''ten'' = None" "py_int [] = None"
  by (simp_all add: py_int_def strip_def is_space_def digit_value_def)

text \<open>
  C7. For a caller in the teacher group whose only query parameter is \<^verbatim>\<open>age=10\<close>,
  \<open>get_queryset\<close> returns the courses with \<open>min_age \<le> 10 \<le> max_age\<close> that list the caller's
  employee among their teachers, each as often as the table holds it and no other row,
  in ascending order of primary key. A course lists an employee at most once.
\<close>

theorem teacher_age_listing:
  assumes "r_user req = Some (uid, u)" and "''teacher'' \<in> set (u_groups u)"
    and "q_age req = Some ''10''"
    and "q_teacher req = None" and "q_search req = None"
    and "q_status req = None" and "q_category req = None"
    and "\<forall>row \<in> set all_courses. distinct (c_teachers (snd row))"
  shows "\<exists>result. get_queryset category_name all_courses req = Inr result
           \<and> result = filter (\<lambda>(k, c). c_min_age c \<le> 10 \<and> 10 \<le> c_max_age c \<and> uid \<in> set (c_teachers c))
                        (sort_key fst all_courses)
           \<and> mset result = filter_mset (\<lambda>(k, c). c_min_age c \<le> 10 \<and> 10 \<le> c_max_age c \<and> uid \<in> set (c_teachers c))
                        (mset all_courses)
           \<and> sorted (map fst result)"
proof -
  let ?sorted = "sort_key fst all_courses"
  have one: "\<forall>r \<in> set ?sorted. length (filter (\<lambda>t. t = uid) (c_teachers (snd r))) \<le> 1"
  proof
    fix r assume "r \<in> set ?sorted"
    then have "distinct (c_teachers (snd r))" using assms(8) by simp
    then show "length (filter (\<lambda>t. t = uid) (c_teachers (snd r))) \<le> 1"
      using filter_eq_distinct_length [of "c_teachers (snd r)" uid] by simp
  qed
  have linked: "filter_related (\<lambda>row. c_teachers (snd row)) (\<lambda>t. t = uid) ?sorted
                  = filter (\<lambda>r. uid \<in> set (c_teachers (snd r))) ?sorted"
    using filter_related_at_most_one
            [of "sort_key fst all_courses" "\<lambda>t. t = uid" "\<lambda>row. c_teachers (snd row)"] one
    by simp
  have run: "get_queryset category_name all_courses req
               = Inr (filter (\<lambda>(k, c). int (c_min_age c) \<le> 10 \<and> int (c_max_age c) \<ge> 10)
                        (filter (\<lambda>r. uid \<in> set (c_teachers (snd r))) ?sorted))"
    using assms(1-7) linked
    by (simp add: get_queryset_def in_group_def and_then_def py_int_10)
  have shape: "filter (\<lambda>(k, c). int (c_min_age c) \<le> 10 \<and> int (c_max_age c) \<ge> 10)
                 (filter (\<lambda>r. uid \<in> set (c_teachers (snd r))) ?sorted)
               = filter (\<lambda>(k, c). c_min_age c \<le> 10 \<and> 10 \<le> c_max_age c \<and> uid \<in> set (c_teachers c)) ?sorted"
    by (auto intro: filter_cong simp: case_prod_unfold)
  have srt: "sorted (map fst (filter (\<lambda>(k, c). c_min_age c \<le> 10 \<and> 10 \<le> c_max_age c \<and> uid \<in> set (c_teachers c)) ?sorted))"
    by (rule sorted_filter) simp
  show ?thesis using run shape srt by simp
qed

theorem teacher_age_listing_witness:
  "r_user example_request = Some (11, example_teacher)
   \<and> ''teacher'' \<in> set (u_groups example_teacher)
   \<and> q_age example_request = Some ''10''
   \<and> list_all (\<lambda>row. distinct (c_teachers (snd row))) example_courses
   \<and> get_queryset (\<lambda>g. []) example_courses example_request
       = Inr [(1, example_course ''Roblox'' 7 12 [11, 12]),
              (4, example_course ''Pencil Code'' 10 14 [11])]"
proof -
  have h: "\<forall>row \<in> set example_courses. distinct (c_teachers (snd row))"
    by (simp add: example_courses_def example_course_def)
  have "\<exists>result. get_queryset (\<lambda>g. []) example_courses example_request = Inr result
          \<and> result = filter (\<lambda>(k, c). c_min_age c \<le> 10 \<and> 10 \<le> c_max_age c \<and> 11 \<in> set (c_teachers c))
                       (sort_key fst example_courses)
          \<and> mset result = filter_mset (\<lambda>(k, c). c_min_age c \<le> 10 \<and> 10 \<le> c_max_age c \<and> 11 \<in> set (c_teachers c))
                       (mset example_courses)
          \<and> sorted (map fst result)"
    by (rule teacher_age_listing [of example_request 11 example_teacher example_courses "\<lambda>g. []", OF _ _ _ _ _ _ _ h])
       (simp_all add: example_request_def example_teacher_def)
  then have "get_queryset (\<lambda>g. []) example_courses example_request
               = Inr (filter (\<lambda>(k, c). c_min_age c \<le> 10 \<and> 10 \<le> c_max_age c \<and> 11 \<in> set (c_teachers c))
                        (sort_key fst example_courses))"
    by blast
  then show ?thesis
    by (simp add: example_courses_def example_course_def example_request_def example_teacher_def)
qed

section \<open>Proofs: creating a user\<close>











text \<open>An address the email validator refuses, and a blank password, stop the request.\<close>

lemma user_create_invalid_email_example:
  "user_create_request example_valid_email example_groups example_users example_storage
     ((example_user_payload ''owner'')\<lparr>up_email := Some ''x''\<rparr>)
     = Inl (ValidationError ''Enter a valid email address.'')"
  "user_create_request example_valid_email example_groups example_users example_storage
     ((example_user_payload ''owner'')\<lparr>up_password := Some []\<rparr>)
     = Inl (ValidationError ''This field may not be blank.'')"
  by (simp_all add: user_create_request_def user_run_validation_def and_then_def GroupChoices_def
        char_field_def blank_def cleaned_def max_length_def strip_def is_space_def
        example_valid_email_def example_user_payload_def)

section \<open>Proofs: the owner's course update\<close>

lemma course_save_same_row:
  assumes "rows tbl pk = Some old" and "stored_ref (c_image old)"
  shows "course_save tbl st (Some pk) old = Inr (pk, tbl, st)"
proof -
  have p: "pre_save ''course_images/'' st (c_image old) = (c_image old, st)"
    using assms(2) by (cases "c_image old") (simp_all add: pre_save_def stored_ref_def)
  have "(rows tbl)(pk \<mapsto> old) = rows tbl" using assms(1) by (rule map_upd_triv)
  then have "course_super_save tbl st (Some pk) old = (pk, tbl, st)"
    using p by (simp add: course_super_save_def)
  then show ?thesis using assms(1) by (simp add: course_save_def and_then_def)
qed

text \<open>
  C9, as the code has it. For a caller in the owner group the actions update and partial update use
  \<^verbatim>\<open>CourseSerializerUpdateTeachers\<close>. An update through it that succeeds leaves every
  column and relation of the course other than its teachers as it was, leaves the other
  courses and the blob store as they were, and it does not reject the other keys of the
  payload: it does not read them, so its outcome is that of the payload reduced to
  \<^verbatim>\<open>teachers\<close>.
\<close>

theorem owner_update_teachers_only:
  "(in_group (map_option snd (r_user req)) ''owner'' \<and> act \<in> set [''update'', ''partial_update''] \<longrightarrow>
      get_serializer_class req act = CourseSerializerUpdateTeachers)
   \<and> (rows tbl pk = Some old \<and> stored_ref (c_image old)
        \<and> owner_course_update teacher_pks tbl st pk payload = Inr (tbl', st') \<longrightarrow>
      (\<exists>new. rows tbl' pk = Some new \<and> new = old\<lparr>c_teachers := c_teachers new\<rparr>)
      \<and> (\<forall>k. k \<noteq> pk \<longrightarrow> rows tbl' k = rows tbl k) \<and> st' = st)
   \<and> owner_course_update teacher_pks tbl st pk payload
       = owner_course_update teacher_pks tbl st pk
           \<lparr>cp_name = None, cp_min_age = None, cp_max_age = None, cp_image = None, cp_link = None,
            cp_status = None, cp_note = None, cp_categories = None,
            cp_teachers = cp_teachers payload, cp_lessons = None\<rparr>"
proof (intro conjI impI)
  assume "in_group (map_option snd (r_user req)) ''owner'' \<and> act \<in> set [''update'', ''partial_update'']"
  then show "get_serializer_class req act = CourseSerializerUpdateTeachers"
    by (simp add: get_serializer_class_def)
next
  assume a: "rows tbl pk = Some old \<and> stored_ref (c_image old)
        \<and> owner_course_update teacher_pks tbl st pk payload = Inr (tbl', st')"
  then have old: "rows tbl pk = Some old" and sr: "stored_ref (c_image old)"
    and run: "owner_course_update teacher_pks tbl st pk payload = Inr (tbl', st')" by simp_all
  from run old obtain vd where
    u: "update_teachers_update tbl st pk old vd = Inr (tbl', st')"
    by (auto simp: owner_course_update_def and_then_def split: sum.splits)
  have cases: "(tbl' = tbl \<or> (\<exists>pks. tbl' = tbl\<lparr>rows := (rows tbl)(pk \<mapsto> old\<lparr>c_teachers := remdups pks\<rparr>)\<rparr>)) \<and> st' = st"
    using u course_save_same_row [OF old sr, of st] old
    by (auto simp: update_teachers_update_def and_then_def split: option.splits)
  then show "\<exists>new. rows tbl' pk = Some new \<and> new = old\<lparr>c_teachers := c_teachers new\<rparr>"
    using old by auto
  from cases show "\<forall>k. k \<noteq> pk \<longrightarrow> rows tbl' k = rows tbl k" by auto
  from cases show "st' = st" by simp
next
  show "owner_course_update teacher_pks tbl st pk payload
       = owner_course_update teacher_pks tbl st pk
           \<lparr>cp_name = None, cp_min_age = None, cp_max_age = None, cp_image = None, cp_link = None,
            cp_status = None, cp_note = None, cp_categories = None,
            cp_teachers = cp_teachers payload, cp_lessons = None\<rparr>"
  proof -
    have eq: "update_teachers_run_validation teacher_pks payload
                = update_teachers_run_validation teacher_pks
                    \<lparr>cp_name = None, cp_min_age = None, cp_max_age = None, cp_image = None,
                     cp_link = None, cp_status = None, cp_note = None, cp_categories = None,
                     cp_teachers = cp_teachers payload, cp_lessons = None\<rparr>"
      by (simp add: update_teachers_run_validation_def)
    show ?thesis by (simp only: owner_course_update_def eq)
  qed
qed

theorem owner_update_other_field_counterexample:
  "\<not> isl (owner_course_update [11, 12] example_course_table example_storage 1 example_course_payload)
   \<and> map_option c_name
       (rows (fst (projr (owner_course_update [11, 12] example_course_table example_storage 1
                            example_course_payload))) 1) = Some ''Roblox''
   \<and> map_option c_teachers
       (rows (fst (projr (owner_course_update [11, 12] example_course_table example_storage 1
                            example_course_payload))) 1) = Some [12]"
  by (simp add: owner_course_update_def update_teachers_run_validation_def update_teachers_update_def
        course_save_def course_super_save_def pre_save_def and_then_def truthy_def
        example_course_table_def example_course_payload_def example_course_def example_storage_def)

theorem owner_update_teachers_only_witness:
  "in_group (map_option snd (r_user (example_request\<lparr>r_user := Some (2, example_owner)\<rparr>))) ''owner''
   \<and> get_serializer_class (example_request\<lparr>r_user := Some (2, example_owner)\<rparr>) ''partial_update''
       = CourseSerializerUpdateTeachers
   \<and> rows example_course_table 1
       = Some ((example_course ''Roblox'' 7 12 [11])\<lparr>c_image := Stored ''course_images/roblox_logo.png''\<rparr>)
   \<and> \<not> isl (owner_course_update [11, 12] example_course_table example_storage 1 example_course_payload)
   \<and> (\<exists>new. rows (fst (projr (owner_course_update [11, 12] example_course_table example_storage 1
                                  example_course_payload))) 1 = Some new
          \<and> new = (example_course ''Roblox'' 7 12 [11])
                    \<lparr>c_image := Stored ''course_images/roblox_logo.png'', c_teachers := c_teachers new\<rparr>)
   \<and> snd (projr (owner_course_update [11, 12] example_course_table example_storage 1
                    example_course_payload)) = example_storage"
proof -
  let ?req = "example_request\<lparr>r_user := Some (2, example_owner)\<rparr>"
  let ?old = "(example_course ''Roblox'' 7 12 [11])\<lparr>c_image := Stored ''course_images/roblox_logo.png''\<rparr>"
  let ?R = "owner_course_update [11, 12] example_course_table example_storage 1 example_course_payload"
  have g: "in_group (map_option snd (r_user ?req)) ''owner''"
    by (simp add: in_group_def example_owner_def)
  have a: "''partial_update'' \<in> set [''update'', ''partial_update'']" by simp
  have old: "rows example_course_table 1 = Some ?old"
    by (simp add: example_course_table_def)
  have sr: "stored_ref (c_image ?old)" by (simp add: stored_ref_def)
  have ok: "\<not> isl ?R"
    by (simp add: owner_course_update_def update_teachers_run_validation_def update_teachers_update_def
          course_save_def course_super_save_def pre_save_def and_then_def truthy_def
          example_course_table_def example_course_payload_def example_course_def)
  then have run: "?R = Inr (fst (projr ?R), snd (projr ?R))"
    by (cases ?R) simp_all
  note inst = owner_update_teachers_only
               [of ?req "''partial_update''" example_course_table 1 ?old "[11, 12]" example_storage
                   example_course_payload "fst (projr ?R)" "snd (projr ?R)"]
  from inst g a have c1: "get_serializer_class ?req ''partial_update'' = CourseSerializerUpdateTeachers"
    by blast
  from inst old sr run
  have c2: "(\<exists>new. rows (fst (projr ?R)) 1 = Some new \<and> new = ?old\<lparr>c_teachers := c_teachers new\<rparr>)
            \<and> (\<forall>k. k \<noteq> 1 \<longrightarrow> rows (fst (projr ?R)) k = rows example_course_table k)
            \<and> snd (projr ?R) = example_storage"
    by blast
  from c2 have c3: "\<exists>new. rows (fst (projr ?R)) 1 = Some new \<and> new = ?old\<lparr>c_teachers := c_teachers new\<rparr>"
    by (rule conjunct1)
  from c2 have c4: "snd (projr ?R) = example_storage" by simp
  show ?thesis
    by (rule conjI [OF g conjI [OF c1 conjI [OF old conjI [OF ok conjI [OF c3 c4]]]]])
qed

section \<open>Proofs: the branch serializers\<close>

lemma branch_to_internal_value_employees:
  assumes "branch_to_internal_value cls partial partner_pks all_employees payload = Inr data"
  shows "(bp_employees payload = None \<longrightarrow> bd_employees data = None)
         \<and> bd_partner data = (if cls = BranchSerializerForOwner then None else bp_partner payload)"
  using assms
  by (auto simp: branch_to_internal_value_def and_then_def
           split: if_splits option.splits sum.splits)

lemma branch_validate_absent:
  "bd_employees data = None \<Longrightarrow> branch_validate instance data = Inr data"
  by (simp add: branch_validate_def Let_def)

text \<open>
  C10. A branch update whose payload has no \<^verbatim>\<open>employees\<close> key and that succeeds leaves
  the employees assigned to the branch as they were, also when it moves the branch to
  the partner the payload names: the employees are not checked against the new partner.
\<close>

theorem branch_update_keeps_employees:
  assumes "bp_employees payload = None" and "rows tbl pk = Some old"
    and "branch_update_request cls partial partner_pks all_employees tbl pk payload = Inr tbl'"
  shows "\<exists>new. rows tbl' pk = Some new \<and> b_employees new = b_employees old
           \<and> set (b_employees new) = set (b_employees old)
           \<and> b_partner new =
               (if cls = BranchSerializerForOwner then b_partner old
                else (case bp_partner payload of None \<Rightarrow> b_partner old | Some p \<Rightarrow> p))"
proof -
  from assms(2,3) obtain data where
    d: "branch_to_internal_value cls partial partner_pks all_employees payload = Inr data"
    and r: "and_then (branch_validate (Some old) data) (branch_model_update tbl pk old) = Inr tbl'"
    by (auto simp: branch_update_request_def and_then_def split: sum.splits)
  from branch_to_internal_value_employees [OF d] assms(1)
  have e: "bd_employees data = None"
    and p: "bd_partner data = (if cls = BranchSerializerForOwner then None else bp_partner payload)"
    by simp_all
  from r branch_validate_absent [OF e, of "Some old"]
  have "branch_model_update tbl pk old data = Inr tbl'" by (simp add: and_then_def)
  with e p show ?thesis
    by (auto simp: branch_model_update_def split: option.splits if_splits)
qed

theorem branch_update_keeps_employees_witness:
  "bp_employees (example_branch_payload (Some 2) None) = None
   \<and> rows example_branch_table 1
       = Some \<lparr>b_name = ''Branch 1'', b_partner = 1, b_status = ''active'', b_employees = [11, 12]\<rparr>
   \<and> \<not> isl (branch_update_request BranchSerializer False [1, 2] example_employees example_branch_table 1
               (example_branch_payload (Some 2) None))
   \<and> (\<exists>new. rows (projr (branch_update_request BranchSerializer False [1, 2] example_employees
                            example_branch_table 1 (example_branch_payload (Some 2) None))) 1 = Some new
          \<and> b_employees new = [11, 12] \<and> b_partner new = 2)
   \<and> map_option e_partner (map_of example_employees 11) = Some 1"
proof -
  let ?R = "branch_update_request BranchSerializer False [1, 2] example_employees example_branch_table 1
              (example_branch_payload (Some 2) None)"
  let ?old = "\<lparr>b_name = ''Branch 1'', b_partner = 1, b_status = ''active'', b_employees = [11, 12]\<rparr>"
  have e: "bp_employees (example_branch_payload (Some 2) None) = None"
    by (simp add: example_branch_payload_def)
  have old: "rows example_branch_table 1 = Some ?old"
    by (simp add: example_branch_table_def)
  have ok: "\<not> isl ?R"
    by (simp add: branch_update_request_def branch_to_internal_value_def branch_validate_def
          branch_model_update_def and_then_def example_branch_table_def example_branch_payload_def)
  then have run: "?R = Inr (projr ?R)" by (cases ?R) simp_all
  from branch_update_keeps_employees [OF e old run]
  have c: "\<exists>new. rows (projr ?R) 1 = Some new \<and> b_employees new = [11, 12] \<and> b_partner new = 2"
    by (auto simp: example_branch_payload_def)
  have emp: "map_option e_partner (map_of example_employees 11) = Some 1"
    by (simp add: example_employees_def)
  show ?thesis by (rule conjI [OF e conjI [OF old conjI [OF ok conjI [OF c emp]]]])
qed

text \<open>
  What \<open>branch_validate\<close> keeps: the submitted employees whose partner is the partner it
  resolved, from the data or else from the branch under update. After an update that is
  the partner of the stored branch.
\<close>

lemma resolve_employees_keys:
  "resolve_employees all_employees pks = Inr es \<Longrightarrow> map fst es = pks
     \<and> (\<forall>e \<in> set es. map_of all_employees (fst e) = Some (snd e))"
  by (auto simp: resolve_employees_def list_all_iff comp_def split: if_splits)

lemma branch_validate_filters:
  assumes "bd_employees data = Some (Some es)"
  shows "branch_validate instance data
           = Inr (data\<lparr>bd_employees := Some (Some (filter (\<lambda>e. Some (e_partner (snd e))
                     = (case bd_partner data of Some p \<Rightarrow> Some p
                        | None \<Rightarrow> map_option b_partner instance)) es))\<rparr>)"
  using assms by (cases "instance") (simp_all add: branch_validate_def split: option.splits)

lemma branch_update_stores_partner_employees:
  assumes "bp_employees payload = Some (Some pks)" and "rows tbl pk = Some old"
    and "branch_update_request cls partial partner_pks all_employees tbl pk payload = Inr tbl'"
  shows "\<exists>new. rows tbl' pk = Some new
           \<and> set (b_employees new)
               = {k \<in> set pks. map_option e_partner (map_of all_employees k) = Some (b_partner new)}"
proof -
  from assms(2,3) obtain data where
    d: "branch_to_internal_value cls partial partner_pks all_employees payload = Inr data"
    and r: "and_then (branch_validate (Some old) data) (branch_model_update tbl pk old) = Inr tbl'"
    by (auto simp: branch_update_request_def and_then_def split: sum.splits)
  from d assms(1) obtain es where
    es: "resolve_employees all_employees pks = Inr es" "bd_employees data = Some (Some es)"
    by (auto simp: branch_to_internal_value_def and_then_def split: if_splits sum.splits)
  from resolve_employees_keys [OF es(1)]
  have keys: "map fst es = pks" "\<forall>e \<in> set es. map_of all_employees (fst e) = Some (snd e)"
    by simp_all
  let ?p = "case bd_partner data of Some p \<Rightarrow> p | None \<Rightarrow> b_partner old"
  let ?kept = "filter (\<lambda>e. e_partner (snd e) = ?p) es"
  have v: "branch_validate (Some old) data = Inr (data\<lparr>bd_employees := Some (Some ?kept)\<rparr>)"
    using branch_validate_filters [OF es(2), of "Some old"]
    by (cases "bd_partner data") simp_all
  from r v have "branch_model_update tbl pk old (data\<lparr>bd_employees := Some (Some ?kept)\<rparr>) = Inr tbl'"
    by (simp add: and_then_def)
  then have new: "rows tbl' pk = Some \<lparr>b_name = (case bd_name data of None \<Rightarrow> b_name old | Some n \<Rightarrow> n),
        b_partner = ?p,
        b_status = (case bd_status data of None \<Rightarrow> b_status old | Some x \<Rightarrow> x),
        b_employees = remdups (map fst ?kept)\<rparr>"
    by (auto simp: branch_model_update_def split: option.splits)
  have "set (map fst ?kept) = {k \<in> set pks. map_option e_partner (map_of all_employees k) = Some ?p}"
  proof (rule set_eqI)
    fix k
    show "k \<in> set (map fst ?kept) \<longleftrightarrow> k \<in> {k \<in> set pks. map_option e_partner (map_of all_employees k) = Some ?p}"
    proof
      assume "k \<in> set (map fst ?kept)"
      then obtain e where e: "e \<in> set es" "e_partner (snd e) = ?p" "fst e = k" by auto
      from e(1) keys(1) have "fst e \<in> set pks" by (metis image_eqI set_map)
      with e keys(2) show "k \<in> {k \<in> set pks. map_option e_partner (map_of all_employees k) = Some ?p}"
        by auto
    next
      assume "k \<in> {k \<in> set pks. map_option e_partner (map_of all_employees k) = Some ?p}"
      then have k: "k \<in> set pks" "map_option e_partner (map_of all_employees k) = Some ?p" by simp_all
      from k(1) keys(1) obtain e where e: "e \<in> set es" "fst e = k" by (metis imageE set_map)
      with keys(2) have "map_of all_employees k = Some (snd e)" by auto
      with k(2) have "e_partner (snd e) = ?p" by simp
      with e show "k \<in> set (map fst ?kept)" by force
    qed
  qed
  with new show ?thesis by simp
qed

text \<open>
  On a create through \<^verbatim>\<open>BranchSerializerForOwner\<close> the partner is read-only, so it is
  neither in the data nor on an instance when \<open>branch_validate\<close> runs: the method compares
  every employee with no partner and keeps none, and \<^verbatim>\<open>create\<close> sets the partner only
  afterwards.
\<close>

lemma owner_branch_create_stores_no_employee:
  assumes "branch_create_request BranchSerializerForOwner owned_partner partner_pks all_employees tbl payload
             = Inr (pk, tbl')"
  shows "\<exists>new. rows tbl' pk = Some new \<and> b_employees new = []"
proof -
  from assms obtain data vd where
    d: "branch_to_internal_value BranchSerializerForOwner False partner_pks all_employees payload = Inr data"
    and v: "branch_validate None data = Inr vd"
    and c: "branch_create_for_owner owned_partner tbl vd = Inr (pk, tbl')"
    by (auto simp: branch_create_request_def and_then_def split: sum.splits)
  from branch_to_internal_value_employees [OF d] have p: "bd_partner data = None" by simp
  from v p have "bd_employees vd = None \<or> bd_employees vd = Some (Some [])"
    by (auto simp: branch_validate_def split: option.splits)
  with c show ?thesis
    by (auto simp: branch_create_for_owner_def branch_model_create_def split: option.splits)
qed

text \<open>
  C2, at the input where the code departs from it. An owner who owns partner 1 creates a
  branch and submits employee 11, who belongs to partner 1: the branch is stored with
  partner 1 and with no employee. The claim keeps employee 11.
\<close>

theorem owner_branch_create_drops_own_employee:
  "branch_create_request BranchSerializerForOwner (Some 1) [1, 2] example_employees example_branch_table
     (example_branch_payload None (Some (Some [11])))
   = Inr (2, example_branch_table
            \<lparr>rows := (rows example_branch_table)
                       (2 \<mapsto> \<lparr>b_name = ''Branch 2'', b_partner = 1, b_status = ''active'', b_employees = []\<rparr>),
             next_pk := 3\<rparr>)"
  by (simp add: branch_create_request_def branch_to_internal_value_def resolve_employees_def
        branch_validate_def branch_create_for_owner_def branch_model_create_def and_then_def
        example_employees_def example_branch_table_def example_branch_payload_def)

text \<open>The same create through \<^verbatim>\<open>BranchSerializer\<close>, the partner sent in the payload.\<close>

lemma default_branch_create_keeps_own_employee:
  "branch_create_request BranchSerializer None [1, 2] example_employees example_branch_table
     (example_branch_payload (Some 1) (Some (Some [11, 21])))
   = Inr (2, example_branch_table
            \<lparr>rows := (rows example_branch_table)
                       (2 \<mapsto> \<lparr>b_name = ''Branch 2'', b_partner = 1, b_status = ''active'', b_employees = [11]\<rparr>),
             next_pk := 3\<rparr>)"
  by (simp add: branch_create_request_def branch_to_internal_value_def resolve_employees_def
        branch_validate_def branch_create_for_owner_def branch_model_create_def and_then_def
        example_employees_def example_branch_table_def example_branch_payload_def)

section \<open>Proofs: lesson files\<close>

lemma pre_save_blobs:
  assumes "pre_save dir st f = (f', st')"
  shows "blobs st \<subseteq> blobs st' \<and> (stored_ref f \<longrightarrow> f' = f \<and> st' = st)"
  using assms
  by (cases f) (auto simp: pre_save_def stored_ref_def split: if_splits)

lemma storage_delete_blobs:
  "storage_delete st n = Inr st' \<Longrightarrow> blobs st' = blobs st - {n}"
  by (auto simp: storage_delete_def split: option.splits)

lemma lesson_super_save_result:
  assumes "lesson_super_save course_name tbl st (Some pk) self = Inr (k, tbl', st')"
  shows "blobs st \<subseteq> blobs st' \<and> k = pk
         \<and> (\<exists>new. rows tbl' pk = Some new
               \<and> (stored_ref (l_presentation self) \<longrightarrow> l_presentation new = l_presentation self))"
proof -
  from assms obtain dir where dir: "course_name (l_course self) = Some dir"
    by (auto simp: lesson_super_save_def split: option.splits)
  obtain p st1 where p: "pre_save dir st (l_presentation self) = (p, st1)"
    by (cases "pre_save dir st (l_presentation self)")
  obtain a st2 where a: "pre_save dir st1 (l_additional_file self) = (a, st2)"
    by (cases "pre_save dir st1 (l_additional_file self)")
  from assms dir p a have r: "k = pk" "st' = st2"
    "rows tbl' pk = Some (self\<lparr>l_presentation := p, l_additional_file := a\<rparr>)"
    by (auto simp: lesson_super_save_def)
  from pre_save_blobs [OF p] pre_save_blobs [OF a] r show ?thesis by auto
qed

lemma lesson_save_presentation_untouched:
  assumes "rows tbl pk = Some old"
    and "lesson_save course_name tbl st (Some pk) self = Inr (k, tbl', st')"
    and "\<not> (truthy (l_presentation old) \<and> truthy (l_presentation self)
            \<and> file_name (l_presentation old) \<noteq> file_name (l_presentation self))"
  shows "blobs st - {name_str (l_additional_file old)} \<subseteq> blobs st'
         \<and> (l_additional_file self = l_additional_file old \<longrightarrow> blobs st \<subseteq> blobs st')
         \<and> (l_presentation self = l_presentation old \<and> stored_ref (l_presentation old) \<longrightarrow>
              (\<exists>new. rows tbl' pk = Some new \<and> l_presentation new = l_presentation old))"
proof -
  let ?self1 = "if truthy (l_presentation old) \<and> \<not> truthy (l_presentation self)
                then self\<lparr>l_presentation := Stored (last_segment (name_str (l_presentation old)))\<rparr>
                else self"
  let ?del = "truthy (l_additional_file old) \<and> truthy (l_additional_file ?self1)
              \<and> file_name (l_additional_file old) \<noteq> file_name (l_additional_file ?self1)"
  let ?self2 = "if truthy (l_additional_file old) \<and> \<not> truthy (l_additional_file ?self1)
                then ?self1\<lparr>l_additional_file := Stored (last_segment (name_str (l_additional_file old)))\<rparr>
                else ?self1"
  from assms obtain st2 where
    d: "(if ?del then storage_delete st (name_str (l_additional_file old)) else Inr st) = Inr st2"
    and s: "lesson_super_save course_name tbl st2 (Some pk) ?self2 = Inr (k, tbl', st')"
    by (auto simp: lesson_save_def and_then_def Let_def split: sum.splits if_splits)
  have b2: "blobs st - {name_str (l_additional_file old)} \<subseteq> blobs st2"
    using d storage_delete_blobs [of st "name_str (l_additional_file old)" st2]
    by (auto split: if_splits)
  have same: "l_additional_file self = l_additional_file old \<Longrightarrow> st2 = st"
    using d by (auto split: if_splits)
  from lesson_super_save_result [OF s]
  have sup: "blobs st2 \<subseteq> blobs st'"
    and row: "\<exists>new. rows tbl' pk = Some new
               \<and> (stored_ref (l_presentation ?self2) \<longrightarrow> l_presentation new = l_presentation ?self2)"
    by simp_all
  have keep: "l_presentation self = l_presentation old \<Longrightarrow> l_presentation ?self2 = l_presentation old"
    by simp
  from b2 sup have c1: "blobs st - {name_str (l_additional_file old)} \<subseteq> blobs st'" by blast
  from same sup have c2: "l_additional_file self = l_additional_file old \<longrightarrow> blobs st \<subseteq> blobs st'"
    by blast
  from row keep
  have c3: "l_presentation self = l_presentation old \<and> stored_ref (l_presentation old) \<longrightarrow>
              (\<exists>new. rows tbl' pk = Some new \<and> l_presentation new = l_presentation old)"
    by metis
  from c1 c2 c3 show ?thesis by blast
qed

lemma lesson_run_validation_files:
  assumes "lesson_run_validation partial course_name payload = Inr vd"
  shows "(lp_presentation payload = None \<longrightarrow> ld_presentation vd = None)
         \<and> (\<forall>v. lp_presentation payload = Some v \<longrightarrow> ld_presentation vd = Some (uploaded v))
         \<and> (lp_additional_file payload = None \<longrightarrow> ld_additional_file vd = None)"
  using assms
  by (auto simp: lesson_run_validation_def and_then_def validate_presentation_def
        validate_additional_file_def split: if_splits option.splits sum.splits)

text \<open>
  C3, as the code has it. Take a lesson update that succeeds. When the name of the
  payload's presentation, as it is sent, is the name of the stored presentation, or when
  the payload has no \<^verbatim>\<open>presentation\<close> key, the presentation causes no deletion: the only
  blob the update can remove is the old additional file, and none at all when the payload
  has no \<^verbatim>\<open>additional_file\<close> key. So the blob of the presentation stays in the store
  unless it is also the blob of the old additional file. When the payload has no
  \<^verbatim>\<open>presentation\<close> key the stored row also keeps the presentation reference it had.
\<close>

theorem lesson_update_presentation_unchanged:
  assumes "rows tbl pk = Some old"
    and "lesson_update_request course_name tbl st partial pk payload = Inr (k, tbl', st')"
  shows "(truthy (l_presentation old) \<and> lp_presentation payload = Some (file_name (l_presentation old)) \<longrightarrow>
            blobs st - {name_str (l_additional_file old)} \<subseteq> blobs st'
            \<and> (lp_additional_file payload = None \<longrightarrow> blobs st \<subseteq> blobs st')
            \<and> (name_str (l_presentation old) \<in> blobs st
                 \<and> name_str (l_additional_file old) \<noteq> name_str (l_presentation old) \<longrightarrow>
               name_str (l_presentation old) \<in> blobs st'))
         \<and> (lp_presentation payload = None \<longrightarrow>
            blobs st - {name_str (l_additional_file old)} \<subseteq> blobs st'
            \<and> (lp_additional_file payload = None \<longrightarrow> blobs st \<subseteq> blobs st')
            \<and> (name_str (l_presentation old) \<in> blobs st
                 \<and> name_str (l_additional_file old) \<noteq> name_str (l_presentation old) \<longrightarrow>
               name_str (l_presentation old) \<in> blobs st')
            \<and> (stored_ref (l_presentation old) \<longrightarrow>
                 (\<exists>new. rows tbl' pk = Some new \<and> l_presentation new = l_presentation old)))"
proof -
  from assms obtain vd where
    v: "lesson_run_validation partial course_name payload = Inr vd"
    and s: "lesson_save course_name tbl st (Some pk) (lesson_set_attrs old vd) = Inr (k, tbl', st')"
    by (auto simp: lesson_update_request_def and_then_def split: sum.splits)
  note f = lesson_run_validation_files [OF v]
  have add: "lp_additional_file payload = None
               \<Longrightarrow> l_additional_file (lesson_set_attrs old vd) = l_additional_file old"
    using f by (simp add: lesson_set_attrs_def)
  show ?thesis
  proof (intro conjI impI)
    assume a: "truthy (l_presentation old) \<and> lp_presentation payload = Some (file_name (l_presentation old))"
    then have "ld_presentation vd = Some (uploaded (file_name (l_presentation old)))"
      using f by simp
    then have "file_name (l_presentation (lesson_set_attrs old vd)) = file_name (l_presentation old)"
      by (cases "l_presentation old") (simp_all add: lesson_set_attrs_def uploaded_def)
    then have n: "\<not> (truthy (l_presentation old) \<and> truthy (l_presentation (lesson_set_attrs old vd))
            \<and> file_name (l_presentation old) \<noteq> file_name (l_presentation (lesson_set_attrs old vd)))"
      by simp
    from lesson_save_presentation_untouched [OF assms(1) s n]
    show sub: "blobs st - {name_str (l_additional_file old)} \<subseteq> blobs st'" by simp
    {
      assume "lp_additional_file payload = None"
      with lesson_save_presentation_untouched [OF assms(1) s n] add
      show "blobs st \<subseteq> blobs st'" by simp
    }
    {
      assume "name_str (l_presentation old) \<in> blobs st
                \<and> name_str (l_additional_file old) \<noteq> name_str (l_presentation old)"
      with sub show "name_str (l_presentation old) \<in> blobs st'" by (auto simp: subset_iff)
    }
  next
    assume a: "lp_presentation payload = None"
    then have e: "l_presentation (lesson_set_attrs old vd) = l_presentation old"
      using f by (simp add: lesson_set_attrs_def)
    then have n: "\<not> (truthy (l_presentation old) \<and> truthy (l_presentation (lesson_set_attrs old vd))
            \<and> file_name (l_presentation old) \<noteq> file_name (l_presentation (lesson_set_attrs old vd)))"
      by simp
    note r = lesson_save_presentation_untouched [OF assms(1) s n]
    from r show sub: "blobs st - {name_str (l_additional_file old)} \<subseteq> blobs st'" by simp
    {
      assume "name_str (l_presentation old) \<in> blobs st
                \<and> name_str (l_additional_file old) \<noteq> name_str (l_presentation old)"
      with sub show "name_str (l_presentation old) \<in> blobs st'" by (auto simp: subset_iff)
    }
    {
      assume "lp_additional_file payload = None"
      with r add show "blobs st \<subseteq> blobs st'" by simp
    }
    {
      assume "stored_ref (l_presentation old)"
      with r e show "\<exists>new. rows tbl' pk = Some new \<and> l_presentation new = l_presentation old"
        by simp
    }
  qed
qed

lemmas lesson_eval =
  lesson_update_request_def lesson_run_validation_def validate_presentation_def
  validate_additional_file_def uploaded_def truthy_def name_str_def endswith_def
  lesson_set_attrs_def lesson_save_def lesson_super_save_def pre_save_def os_path_join_def
  and_then_def storage_delete_def last_segment_def example_lesson_table_def
  example_lesson_storage_def example_lesson_payload_def example_lesson_def
  example_course_names_def

theorem lesson_update_presentation_unchanged_witness:
  "rows example_lesson_table 2 = Some (example_lesson (Stored ''intro.pptx'') NoFile)
   \<and> truthy (l_presentation (example_lesson (Stored ''intro.pptx'') NoFile))
   \<and> lp_presentation (example_lesson_payload (Some (Some ''intro.pptx'')))
       = Some (file_name (l_presentation (example_lesson (Stored ''intro.pptx'') NoFile)))
   \<and> \<not> isl (lesson_update_request example_course_names example_lesson_table
               (example_lesson_storage (\<lambda>n. Some ''connection refused'')) True 2
               (example_lesson_payload (Some (Some ''intro.pptx''))))
   \<and> blobs (example_lesson_storage (\<lambda>n. Some ''connection refused''))
       \<subseteq> blobs (snd (snd (projr (lesson_update_request example_course_names example_lesson_table
               (example_lesson_storage (\<lambda>n. Some ''connection refused'')) True 2
               (example_lesson_payload (Some (Some ''intro.pptx'')))))))
   \<and> rows example_lesson_table 1
       = Some (example_lesson (Stored ''Roblox/roblox_lesson_1.pptx'')
                 (Stored ''Roblox/additional_files_lesson_1.zip''))
   \<and> lp_presentation (example_lesson_payload None) = None
   \<and> \<not> isl (lesson_update_request example_course_names example_lesson_table
               (example_lesson_storage (\<lambda>n. None)) True 1 (example_lesson_payload None))
   \<and> blobs (example_lesson_storage (\<lambda>n. None))
       \<subseteq> blobs (snd (snd (projr (lesson_update_request example_course_names example_lesson_table
               (example_lesson_storage (\<lambda>n. None)) True 1 (example_lesson_payload None)))))
   \<and> (\<exists>new. rows (fst (snd (projr (lesson_update_request example_course_names example_lesson_table
               (example_lesson_storage (\<lambda>n. None)) True 1 (example_lesson_payload None))))) 1 = Some new
          \<and> l_presentation new = Stored ''Roblox/roblox_lesson_1.pptx'')"
proof -
  let ?Ra = "lesson_update_request example_course_names example_lesson_table
               (example_lesson_storage (\<lambda>n. Some ''connection refused'')) True 2
               (example_lesson_payload (Some (Some ''intro.pptx'')))"
  let ?Rb = "lesson_update_request example_course_names example_lesson_table
               (example_lesson_storage (\<lambda>n. None)) True 1 (example_lesson_payload None)"
  let ?old2 = "example_lesson (Stored ''intro.pptx'') NoFile"
  let ?old1 = "example_lesson (Stored ''Roblox/roblox_lesson_1.pptx'')
                 (Stored ''Roblox/additional_files_lesson_1.zip'')"
  have r2: "rows example_lesson_table 2 = Some ?old2"
    and r1: "rows example_lesson_table 1 = Some ?old1"
    by (simp_all add: example_lesson_table_def)
  have t2: "truthy (l_presentation ?old2)"
    by (simp add: truthy_def example_lesson_def)
  have pa: "lp_presentation (example_lesson_payload (Some (Some ''intro.pptx'')))
              = Some (file_name (l_presentation ?old2))"
    and aa: "lp_additional_file (example_lesson_payload (Some (Some ''intro.pptx''))) = None"
    and pb: "lp_presentation (example_lesson_payload None) = None"
    and ab: "lp_additional_file (example_lesson_payload None) = None"
    by (simp_all add: example_lesson_payload_def example_lesson_def)
  have sb: "stored_ref (l_presentation ?old1)"
    and lb: "l_presentation ?old1 = Stored ''Roblox/roblox_lesson_1.pptx''"
    by (simp_all add: stored_ref_def example_lesson_def)
  have oka: "\<not> isl ?Ra" by (simp add: lesson_eval)
  have okb: "\<not> isl ?Rb" by (simp add: lesson_eval)
  from oka have runa: "?Ra = Inr (fst (projr ?Ra), fst (snd (projr ?Ra)), snd (snd (projr ?Ra)))"
    by (cases ?Ra) simp_all
  from okb have runb: "?Rb = Inr (fst (projr ?Rb), fst (snd (projr ?Rb)), snd (snd (projr ?Rb)))"
    by (cases ?Rb) simp_all
  from lesson_update_presentation_unchanged [OF r2 runa] t2 pa aa
  have ca: "blobs (example_lesson_storage (\<lambda>n. Some ''connection refused''))
              \<subseteq> blobs (snd (snd (projr ?Ra)))"
    by blast
  from lesson_update_presentation_unchanged [OF r1 runb] pb ab sb
  have cb: "blobs (example_lesson_storage (\<lambda>n. None)) \<subseteq> blobs (snd (snd (projr ?Rb)))"
    and cr: "\<exists>new. rows (fst (snd (projr ?Rb))) 1 = Some new \<and> l_presentation new = l_presentation ?old1"
    by blast+
  from cr lb
  have cr': "\<exists>new. rows (fst (snd (projr ?Rb))) 1 = Some new
               \<and> l_presentation new = Stored ''Roblox/roblox_lesson_1.pptx''"
    by simp
  show ?thesis
    by (rule conjI [OF r2 conjI [OF t2 conjI [OF pa conjI [OF oka conjI [OF ca
          conjI [OF r1 conjI [OF pb conjI [OF okb conjI [OF cb cr']]]]]]]]])
qed

text \<open>
  A payload that sends \<^verbatim>\<open>presentation\<close> as null does not omit it: the second branch of
  \<^verbatim>\<open>Lesson.save\<close> runs and the row keeps a presentation, under the name that follows the
  last slash of the old one.
\<close>

lemma lesson_null_presentation_example:
  "map_option l_presentation
     (rows (fst (snd (projr (lesson_update_request example_course_names example_lesson_table
               (example_lesson_storage (\<lambda>n. None)) True 1 (example_lesson_payload (Some None)))))) 1)
   = Some (Stored ''roblox_lesson_1.pptx'')"
  by (simp add: lesson_eval)

text \<open>
  Where the claim fails: the presentation and the additional file of the lesson are
  stored under one name, and the payload has no \<^verbatim>\<open>presentation\<close> key and replaces the
  additional file. The update deletes the blob both fields name, and the row keeps its
  presentation reference to it.
\<close>

theorem lesson_update_shared_blob_counterexample:
  "map_option l_presentation (rows example_shared_table 1) = Some (Stored ''Roblox/handout.pdf'')
   \<and> ''Roblox/handout.pdf'' \<in> blobs example_shared_storage
   \<and> lp_presentation example_shared_payload = None
   \<and> \<not> isl (lesson_update_request example_course_names example_shared_table example_shared_storage
               True 1 example_shared_payload)
   \<and> ''Roblox/handout.pdf''
       \<notin> blobs (snd (snd (projr (lesson_update_request example_course_names example_shared_table
                                    example_shared_storage True 1 example_shared_payload))))
   \<and> map_option l_presentation
       (rows (fst (snd (projr (lesson_update_request example_course_names example_shared_table
                                 example_shared_storage True 1 example_shared_payload)))) 1)
       = Some (Stored ''Roblox/handout.pdf'')"
  by (simp add: lesson_update_request_def lesson_run_validation_def validate_presentation_def
        validate_additional_file_def uploaded_def truthy_def name_str_def endswith_def
        lesson_set_attrs_def lesson_save_def lesson_super_save_def pre_save_def os_path_join_def
        and_then_def storage_delete_def example_shared_table_def example_shared_storage_def
        example_shared_payload_def example_course_names_def)

text \<open>
  An upload carries the name of the file alone, the stored reference the name of the
  course before it: sending the file of the lesson again is a replacement for
  \<^verbatim>\<open>Lesson.save\<close>, which deletes the stored blob before the upload is written under the
  same name. On a store whose \<^verbatim>\<open>delete\<close> raises, the update raises.
\<close>

lemma lesson_resend_own_file_example:
  "lesson_update_request example_course_names example_lesson_table
     (example_lesson_storage (\<lambda>n. Some ''connection refused'')) True 1
     (example_lesson_payload (Some (Some ''roblox_lesson_1.pptx'')))
   = Inl (StorageError ''connection refused'')"
  "\<not> isl (lesson_update_request example_course_names example_lesson_table
            (example_lesson_storage (\<lambda>n. None)) True 1
            (example_lesson_payload (Some (Some ''roblox_lesson_1.pptx''))))"
  "map_option l_presentation
     (rows (fst (snd (projr (lesson_update_request example_course_names example_lesson_table
               (example_lesson_storage (\<lambda>n. None)) True 1
               (example_lesson_payload (Some (Some ''roblox_lesson_1.pptx''))))))) 1)
   = Some (Stored ''Roblox/roblox_lesson_1.pptx'')"
  by (simp_all add: lesson_eval)

section \<open>Proofs: failures of the blob store\<close>

text \<open>
  C4, at the input where the code departs from it. A partial update replaces the
  presentation of lesson 1 while \<^verbatim>\<open>delete\<close> of the blob store raises. \<^verbatim>\<open>Lesson.save\<close> calls
  \<^verbatim>\<open>delete\<close> outside any \<^verbatim>\<open>try\<close>: the exception reaches the caller and the row is not
  written. The claim has the failure caught and logged and the update completed.
\<close>

theorem lesson_update_delete_failure_propagates:
  "lesson_update_request example_course_names example_lesson_table
     (example_lesson_storage (\<lambda>n. Some ''connection refused'')) True 1
     (example_lesson_payload (Some (Some ''new.pptx'')))
   = Inl (StorageError ''connection refused'')"
  by (simp add: lesson_eval)

text \<open>The same update on a store whose \<^verbatim>\<open>delete\<close> works: the old blob goes, the new one is written.\<close>

lemma lesson_update_replaces_presentation_example:
  "\<not> isl (lesson_update_request example_course_names example_lesson_table
            (example_lesson_storage (\<lambda>n. None)) True 1 (example_lesson_payload (Some (Some ''new.pptx''))))
   \<and> blobs (snd (snd (projr (lesson_update_request example_course_names example_lesson_table
            (example_lesson_storage (\<lambda>n. None)) True 1 (example_lesson_payload (Some (Some ''new.pptx''))))))) 
      = {''Roblox/new.pptx'', ''Roblox/additional_files_lesson_1.zip'', ''intro.pptx''}"
  by (auto simp add: lesson_eval)

text \<open>
  The \<^verbatim>\<open>delete\<close> methods do what the claim says: each deletion of a blob is tried, a
  failure is printed, and the row is removed whatever the store did.
\<close>

lemma try_delete_total:
  "\<exists>st' printed'. try_delete label st printed n = (st', printed')"
  by (cases "try_delete label st printed n") blast

lemma lesson_delete_completes:
  "\<exists>tbl' st' printed'. lesson_delete tbl st printed (Some pk) self = Inr (tbl', st', printed')
      \<and> rows tbl' pk = None"
  by (auto simp: lesson_delete_def Let_def split: prod.splits)

lemma course_delete_completes:
  "\<exists>tbl' st' printed'. course_delete tbl st printed (Some pk) self = Inr (tbl', st', printed')
      \<and> rows tbl' pk = None"
  by (auto simp: course_delete_def Let_def split: prod.splits)

lemma user_delete_completes:
  "\<exists>tbl' st' printed'. user_delete tbl st printed (Some pk) self = Inr (tbl', st', printed')
      \<and> map_of (ut_rows tbl') pk = None"
  by (auto simp: user_delete_def Let_def delete_conv' split: prod.splits)

lemma lesson_delete_failure_example:
  "lesson_delete example_lesson_table (example_lesson_storage (\<lambda>n. Some ''connection refused'')) []
     (Some 2) (example_lesson (Stored ''intro.pptx'') NoFile)
   = Inr (example_lesson_table\<lparr>rows := (rows example_lesson_table)(2 := None)\<rparr>,
          example_lesson_storage (\<lambda>n. Some ''connection refused''),
          [''Error deleting presentation from S3: connection refused''])"
  by (simp add: lesson_delete_def try_delete_def storage_delete_def truthy_def name_str_def
        example_lesson_def example_lesson_storage_def)

text \<open>\<^verbatim>\<open>Course.save\<close> and \<^verbatim>\<open>User.save\<close> call \<^verbatim>\<open>delete\<close> as \<^verbatim>\<open>Lesson.save\<close> does.\<close>

lemma course_save_delete_failure_example:
  "course_save example_course_table (example_lesson_storage (\<lambda>n. Some ''connection refused'')) (Some 1)
     ((example_course ''Roblox'' 7 12 [11])\<lparr>c_image := Upload ''new_logo.png''\<rparr>)
   = Inl (StorageError ''connection refused'')"
  by (simp add: course_save_def and_then_def storage_delete_def truthy_def name_str_def
        example_course_table_def example_course_def example_lesson_storage_def)

lemma user_save_delete_failure_example:
  "user_save \<lparr>ut_rows = [(11, example_teacher\<lparr>u_image := Stored ''user_images/user_logo.png''\<rparr>)], ut_next_pk = 12\<rparr>
     (example_lesson_storage (\<lambda>n. Some ''connection refused'')) (Some 11)
     (example_teacher\<lparr>u_image := Upload ''new_logo.png''\<rparr>)
   = Inl (StorageError ''connection refused'')"
  by (simp add: user_save_def and_then_def storage_delete_def truthy_def name_str_def
        example_teacher_def example_lesson_storage_def)

end
